theory Spec2Isabelle
  imports Complex_Main "HOL-Library.AList" "HOL-Library.Multiset"
begin

section \<open>The logging-and-learning core of \<open>sysfail.py\<close>\<close>

text \<open>
  The development embeds the stateful part of \<open>sysfail.py\<close>: the two JSON helpers
  \<open>load_json_robust\<close> and \<open>save_json_robust\<close>, and the methods of the class
  \<open>SelfAwareChatbotStreamlit\<close>. Everything the Python takes from its environment is an
  explicit argument of the model: the files on disk, the outcome of each file operation,
  the clock, the random draws and the hosted language model.

  Strings are ASCII texts (\<open>char list\<close>). The stores hold what the program itself writes:
  a knowledge dictionary from strings to strings and a list of log entries with the seven
  fields that \<open>log_error\<close> sets.
\<close>

subsection \<open>Python string operations\<close>

definition lower_char :: "char \<Rightarrow> char" where
  "lower_char c =
     (case map_of (zip ''ABCDEFGHIJKLMNOPQRSTUVWXYZ'' ''abcdefghijklmnopqrstuvwxyz'') c of
        None \<Rightarrow> c
      | Some d \<Rightarrow> d)"

definition lower :: "string \<Rightarrow> string" where
  "lower s = map lower_char s"

text \<open>The ASCII characters for which \<open>str.isspace\<close> holds; \<open>str.strip()\<close> removes them
  from both ends.\<close>

definition isspace :: "char \<Rightarrow> bool" where
  "isspace c = (c \<in> set [CHR '' '', CHR 0x09, CHR 0x0A, CHR 0x0B, CHR 0x0C, CHR 0x0D,
                         CHR 0x1C, CHR 0x1D, CHR 0x1E, CHR 0x1F])"

definition strip :: "string \<Rightarrow> string" where
  "strip s = rev (dropWhile isspace (rev (dropWhile isspace s)))"

definition startswith :: "string \<Rightarrow> string \<Rightarrow> bool" where
  "startswith s p = (take (length p) s = p)"

text \<open>\<open>contains s p\<close> is Python's \<open>p in s\<close> on strings.\<close>

fun contains :: "string \<Rightarrow> string \<Rightarrow> bool" where
  "contains [] p = (p = [])"
| "contains (c # cs) p = (startswith (c # cs) p \<or> contains cs p)"

text \<open>\<open>join sep xs\<close> is \<open>sep.join(xs)\<close>.\<close>

fun join :: "string \<Rightarrow> string list \<Rightarrow> string" where
  "join sep [] = []"
| "join sep [x] = x"
| "join sep (x # y # ys) = x @ sep @ join sep (y # ys)"

definition digit_char :: "nat \<Rightarrow> char" where
  "digit_char d = ''0123456789'' ! d"

text \<open>\<open>str(n)\<close> for a count \<open>n\<close>.\<close>

fun str_nat :: "nat \<Rightarrow> string" where
  "str_nat n = (if n < 10 then [digit_char n] else str_nat (n div 10) @ [digit_char (n mod 10)])"

declare str_nat.simps [simp del]

text \<open>
  The format \<open>f"{x:.2f}"\<close>: the sign, then the magnitude with two decimals, a tie rounded
  to the even neighbour. The real number stands for the exact value of the Python float.
\<close>

definition format_2f :: "real \<Rightarrow> string" where
  "format_2f x =
     (let scaled = \<bar>x\<bar> * 100;
          fl = \<lfloor>scaled\<rfloor>;
          frac = scaled - of_int fl;
          h = nat (if frac > 1/2 \<or> (frac = 1/2 \<and> odd fl) then fl + 1 else fl)
      in (if x < 0 then ''-'' else [])
         @ str_nat (h div 100) @ ''.'' @ [digit_char (h mod 100 div 10), digit_char (h mod 10)])"

subsection \<open>Configuration\<close>

definition KNOWLEDGE_FILE :: string where
  "KNOWLEDGE_FILE = ''knowledge_base_genai.json''"

definition LOG_FILE :: string where
  "LOG_FILE = ''error_log_genai.json''"

definition DEFAULT_FALLBACK_RESPONSES :: "string list" where
  "DEFAULT_FALLBACK_RESPONSES =
    [''I'm sorry, I encountered an issue or couldn't understand clearly. Could you please rephrase?'',
     ''Hmm, I'm having trouble with that request. Let's try something else.'',
     ''My apologies, I can't seem to process that right now.'']"

definition SIMULATED_FAILURE_RATE :: real where
  "SIMULATED_FAILURE_RATE = 10 / 100"

definition REFUSAL_PHRASES :: "string list" where
  "REFUSAL_PHRASES =
    [''i cannot'', ''i am unable'', ''i don't have information'', ''my apologies, but i'',
     ''as an ai'', ''i lack the ability'']"

subsection \<open>Documents and files\<close>

record log_entry =
  timestamp :: string
  user_input :: string
  bot_response :: string
  error_type :: string
  simulated_confidence :: "string option"
  genai_error_details :: "string option"
  feedback_provided :: "string option"

text \<open>
  A JSON document of the program is a dictionary (kept in insertion order, as a Python
  \<open>dict\<close> is) or a list of log entries. The \<open>isinstance\<close> tests of the source tell the two
  apart.
\<close>

datatype json_value = Object "(string \<times> string) list" | Array "log_entry list"

text \<open>
  A file holds the complete output of \<open>json.dump\<close> for a document, which \<open>json.load\<close>
  reads back, or bytes that \<open>json.load\<close> does not read: text at which it raises
  \<open>JSONDecodeError\<close> (\<open>NotJson\<close>), or bytes that are not UTF-8, at which reading the
  file raises \<open>UnicodeDecodeError\<close> (\<open>NotUtf8\<close>).
\<close>

datatype garbage = NotJson string | NotUtf8 string

datatype file_content = Json json_value | Garbage garbage

type_synonym files = "string \<rightharpoonup> file_content"

text \<open>
  What happens when \<open>save_json_robust\<close> writes: the \<open>with open(filename, 'w')\<close> block
  completes; or \<open>open\<close> raises and the file is not touched; or \<open>open\<close> has truncated the
  file and \<open>json.dump\<close> raises after the given bytes, a proper prefix of the output (cut
  inside a character or not), have reached it.
\<close>

datatype write_result = Written | OpenRefused | DumpInterrupted garbage

text \<open>\<open>ReadRefused\<close>: \<open>open(filename, 'r')\<close> raises (the file cannot be opened).\<close>

datatype read_result = ReadOk | ReadRefused

record load_env =
  on_write :: write_result
  on_read :: read_result
  rename_ok :: bool
  stamp :: string

text \<open>
  Both \<open>except\<close> clauses of \<open>save_json_robust\<close> call \<open>st.toast\<close> before \<open>return False\<close>,
  with an \<open>icon\<close> of the three characters U+201A, U+00F9, U+00E5. That is not an emoji, so
  \<open>st.toast\<close> raises \<open>StreamlitAPIException\<close>; raised inside the handler, it leaves the
  function, and \<open>return False\<close> is not reached. No other exception leaves the functions
  modelled here.
\<close>

datatype exn = StreamlitAPIException

definition save_json_robust :: "files \<Rightarrow> write_result \<Rightarrow> string \<Rightarrow> json_value \<Rightarrow> (exn + bool) \<times> files" where
  "save_json_robust fs w filename data =
     (case w of
        Written \<Rightarrow> (Inr True, fs(filename \<mapsto> Json data))
      | OpenRefused \<Rightarrow> (Inl StreamlitAPIException, fs)
      | DumpInterrupted part \<Rightarrow> (Inl StreamlitAPIException, fs(filename \<mapsto> Garbage part)))"

text \<open>The name \<open>f"{filename}.bad_{datetime.now().strftime('%Y%m%d%H%M%S')}"\<close>; the field
  \<open>stamp\<close> of the environment is the rendered time.\<close>

definition backup_filename :: "string \<Rightarrow> string \<Rightarrow> string" where
  "backup_filename filename st = filename @ ''.bad_'' @ st"

text \<open>\<open>os.rename\<close>: the content moves to the new name, replacing what was there.\<close>

definition rename :: "files \<Rightarrow> string \<Rightarrow> string \<Rightarrow> files" where
  "rename fs src dst = (fs(src := None))(dst := fs src)"

text \<open>
  A missing file: the default is saved, and an exception of the save leaves the function.
  \<open>JSONDecodeError\<close> has its own clause, which renames the file; every other exception of
  the \<open>try\<close> block (the file cannot be opened, its bytes are not UTF-8) reaches the clause
  \<open>except Exception\<close>, which returns the default and leaves the file where it is.
\<close>

definition load_json_robust ::
  "files \<Rightarrow> load_env \<Rightarrow> string \<Rightarrow> json_value \<Rightarrow> (exn + json_value) \<times> files" where
  "load_json_robust fs env filename default_data =
     (case fs filename of
        None \<Rightarrow>
          (case save_json_robust fs (on_write env) filename default_data of
             (Inl e, fs') \<Rightarrow> (Inl e, fs')
           | (Inr saved, fs') \<Rightarrow> (Inr default_data, fs'))
      | Some content \<Rightarrow>
          (case on_read env of
             ReadRefused \<Rightarrow> (Inr default_data, fs)
           | ReadOk \<Rightarrow>
               (case content of
                  Json doc \<Rightarrow> (Inr doc, fs)
                | Garbage (NotUtf8 bytes) \<Rightarrow> (Inr default_data, fs)
                | Garbage (NotJson bytes) \<Rightarrow>
                    (Inr default_data,
                     if rename_ok env then rename fs filename (backup_filename filename (stamp env))
                     else fs))))"

subsection \<open>The class \<open>SelfAwareChatbotStreamlit\<close>\<close>

definition DEFAULT_KNOWLEDGE :: "(string \<times> string) list" where
  "DEFAULT_KNOWLEDGE =
     [(''help'', ''I'm an AI assistant powered by Google Gemini. Ask me anything! Use sidebar commands for error analysis and log management.'')]"

record chatbot =
  knowledge_file :: string
  log_file :: string
  learned_knowledge :: json_value
  error_logs :: json_value

definition init ::
  "files \<Rightarrow> load_env \<Rightarrow> load_env \<Rightarrow> string \<Rightarrow> string \<Rightarrow> (exn + chatbot) \<times> files" where
  "init fs env_k env_l kf lf =
     (case load_json_robust fs env_k kf (Object DEFAULT_KNOWLEDGE) of
        (Inl e, fs1) \<Rightarrow> (Inl e, fs1)
      | (Inr k, fs1) \<Rightarrow>
          (case load_json_robust fs1 env_l lf (Array []) of
             (Inl e, fs2) \<Rightarrow> (Inl e, fs2)
           | (Inr l, fs2) \<Rightarrow>
               (Inr \<lparr>knowledge_file = kf, log_file = lf, learned_knowledge = k, error_logs = l\<rparr>,
                fs2)))"

text \<open>The argument \<open>genai_error\<close> of \<open>log_error\<close> is \<open>None\<close>, a string or the exception
  caught; \<open>PyExc\<close> carries \<open>str(e)\<close>.\<close>

datatype py_value = PyStr string | PyExc string

fun truthy :: "py_value \<Rightarrow> bool" where
  "truthy (PyStr s) = (s \<noteq> [])"
| "truthy (PyExc m) = True"

fun str_of :: "py_value \<Rightarrow> string" where
  "str_of (PyStr s) = s"
| "str_of (PyExc m) = m"

text \<open>The list that \<open>log_error\<close> appends to: \<open>self.error_logs\<close>, reset to \<open>[]\<close> when it is
  not a list.\<close>

definition ensure_list :: "json_value \<Rightarrow> log_entry list" where
  "ensure_list v = (case v of Array xs \<Rightarrow> xs | Object d \<Rightarrow> [])"

text \<open>
  A method gives \<open>Inl e\<close> when the exception \<open>e\<close> leaves it, and \<open>Inr v\<close> when it
  returns \<open>v\<close>; in both cases the chatbot and the files are as the method left them: every
  method changes \<open>self\<close> before it saves. \<open>iso_now\<close> is \<open>datetime.now().isoformat()\<close>.
\<close>

definition log_error ::
  "chatbot \<Rightarrow> files \<Rightarrow> write_result \<Rightarrow> string \<Rightarrow> string \<Rightarrow> string \<Rightarrow> string \<Rightarrow> real option \<Rightarrow>
   py_value option \<Rightarrow> (exn + int option) \<times> chatbot \<times> files" where
  "log_error s fs w iso_now u_input b_response e_type confidence genai_error =
     (let log_entry = \<lparr>timestamp = iso_now,
                       user_input = u_input,
                       bot_response = b_response,
                       error_type = e_type,
                       simulated_confidence = map_option format_2f confidence,
                       genai_error_details =
                         (case genai_error of
                            None \<Rightarrow> None
                          | Some e \<Rightarrow> if truthy e then Some (str_of e) else None),
                       feedback_provided = None\<rparr>;
          logs = ensure_list (error_logs s) @ [log_entry];
          (saved, fs') = save_json_robust fs w (log_file s) (Array logs)
      in (case saved of
            Inl e \<Rightarrow> Inl e
          | Inr ok \<Rightarrow> Inr (if ok then Some (int (length logs) - 1) else None),
          s\<lparr>error_logs := Array logs\<rparr>, fs'))"

definition add_feedback_to_log ::
  "chatbot \<Rightarrow> files \<Rightarrow> write_result \<Rightarrow> int \<Rightarrow> string \<Rightarrow> (exn + bool) \<times> chatbot \<times> files" where
  "add_feedback_to_log s fs w log_index feedback =
     (case error_logs s of
        Array logs \<Rightarrow>
          if 0 \<le> log_index \<and> log_index < int (length logs) then
            (let logs' = logs[nat log_index := (logs ! nat log_index)\<lparr>feedback_provided := Some feedback\<rparr>];
                 (saved, fs') = save_json_robust fs w (log_file s) (Array logs')
             in (saved, s\<lparr>error_logs := Array logs'\<rparr>, fs'))
          else (Inr False, s, fs)
      | Object d \<Rightarrow> (Inr False, s, fs))"

definition add_learned_knowledge ::
  "chatbot \<Rightarrow> files \<Rightarrow> write_result \<Rightarrow> string \<Rightarrow> string \<Rightarrow> (exn + bool) \<times> chatbot \<times> files" where
  "add_learned_knowledge s fs w keyword response =
     (if keyword = [] \<or> response = [] then (Inr False, s, fs)
      else
        (let kb = (case learned_knowledge s of Object d \<Rightarrow> d | Array xs \<Rightarrow> DEFAULT_KNOWLEDGE);
             kb' = AList.update (strip (lower keyword)) (strip response) kb;
             (saved, fs') = save_json_robust fs w (knowledge_file s) (Object kb')
         in (saved, s\<lparr>learned_knowledge := Object kb'\<rparr>, fs')))"

definition clear_log_file_data ::
  "chatbot \<Rightarrow> files \<Rightarrow> write_result \<Rightarrow> (exn + bool) \<times> chatbot \<times> files" where
  "clear_log_file_data s fs w =
     (let (saved, fs') = save_json_robust fs w (log_file s) (Array [])
      in (saved, s\<lparr>error_logs := Array []\<rparr>, fs'))"

definition reset_knowledge_data ::
  "chatbot \<Rightarrow> files \<Rightarrow> write_result \<Rightarrow> (exn + bool) \<times> chatbot \<times> files" where
  "reset_knowledge_data s fs w =
     (let (saved, fs') = save_json_robust fs w (knowledge_file s) (Object DEFAULT_KNOWLEDGE)
      in (saved, s\<lparr>learned_knowledge := Object DEFAULT_KNOWLEDGE\<rparr>, fs'))"

subsection \<open>\<open>generate_response\<close>\<close>

record chat_message =
  role :: string
  content :: string

text \<open>
  What \<open>generate_response\<close> inspects of the object that \<open>generate_content\<close> returns. Reading
  an attribute (by \<open>hasattr\<close> or directly) finds no such attribute (\<open>NoAttr\<close>), gives a
  value (\<open>Attr\<close>) or raises another exception with the given message (\<open>AttrRaises\<close>), which
  \<open>hasattr\<close> lets through. The value of \<open>text\<close> is a string or \<open>None\<close>; the value of
  \<open>prompt_feedback\<close> is \<open>None\<close> (\<open>NoFeedback\<close>) or an object whose \<open>block_reason\<close> is falsy
  (\<open>BlockReason None\<close>) or truthy and rendered as \<open>b\<close> (\<open>BlockReason (Some b)\<close>). For a
  blocked prompt the library returns an object whose \<open>text\<close> accessor raises \<open>ValueError\<close>
  and whose \<open>prompt_feedback\<close> holds the block reason. The call itself raises (with
  \<open>str(e)\<close>) or returns an object, which is \<open>None\<close> when falsy.
\<close>

datatype 'a attr = NoAttr | Attr 'a | AttrRaises string

datatype feedback = NoFeedback | BlockReason "string option"

record genai_reply =
  reply_text :: "string option attr"
  prompt_feedback :: "feedback attr"

datatype call_outcome = Raised string | Returned "genai_reply option"

text \<open>The draws of the module \<open>random\<close> that decide the outcome: \<open>random.random()\<close>,
  \<open>random.uniform(0.1, 0.5)\<close> and the index taken by \<open>random.choice\<close>.\<close>

record rng =
  random_draw :: real
  uniform_draw :: real
  choice_index :: nat

definition choice :: "string list \<Rightarrow> nat \<Rightarrow> string" where
  "choice xs i = xs ! (i mod length xs)"

definition newline :: string where
  "newline = [CHR 0x0A]"

definition apostrophe :: string where
  "apostrophe = [CHR 0x27]"

definition genai_role :: "string \<Rightarrow> string" where
  "genai_role r = (if r = ''assistant'' then ''model'' else r)"

text \<open>The prompt built from \<open>chat_history[-5:]\<close> and the current input.\<close>

definition prompt_for_genai :: "chat_message list \<Rightarrow> string \<Rightarrow> string" where
  "prompt_for_genai chat_history u_input =
     join newline (map (\<lambda>msg. genai_role (role msg) @ '': '' @ content msg)
                       (drop (length chat_history - 5) chat_history))
     @ newline @ ''user: '' @ u_input"

text \<open>
  The \<open>try\<close> block after the call, with its \<open>except\<close> clause: the result is
  \<open>(bot_response_text, error_type, sim_confidence, genai_error_info)\<close>. Every exception
  raised inside the block is caught by \<open>except Exception\<close>: one raised by the call, one
  that \<open>hasattr\<close> lets through, and the \<open>AttributeError\<close> of \<open>bot_response_text.lower()\<close>
  or \<open>response.prompt_feedback.block_reason\<close> on \<open>None\<close>. Every branch assigns
  \<open>bot_response_text\<close>, so the fallback phrase drawn at the head of the method is never
  returned.
\<close>

definition none_has_no_attribute :: "string \<Rightarrow> string" where
  "none_has_no_attribute name =
     apostrophe @ ''NoneType'' @ apostrophe @ '' object has no attribute '' @ apostrophe @ name
       @ apostrophe"

definition detect_failures :: "rng \<Rightarrow> call_outcome \<Rightarrow> string \<times> string option \<times> real \<times> py_value option" where
  "detect_failures rnd outcome =
     (let format_error = (choice DEFAULT_FALLBACK_RESPONSES (choice_index rnd),
                          Some ''API Response Format Error'', 0.2,
                          Some (PyStr ''Unexpected GenAI response structure''));
          api_error = (\<lambda>e. (''I'm sorry, I encountered a technical difficulty trying to generate a response.'',
                             Some ''API Error'', 0.0, Some (PyExc e)))
      in case outcome of
        Raised e \<Rightarrow> api_error e
      | Returned None \<Rightarrow> format_error
      | Returned (Some response) \<Rightarrow>
          (case reply_text response of
             AttrRaises e \<Rightarrow> api_error e
           | Attr None \<Rightarrow> api_error (none_has_no_attribute ''lower'')
           | Attr (Some t) \<Rightarrow>
               if list_ex (\<lambda>phrase. contains (lower t) phrase) REFUSAL_PHRASES then
                 (t, Some ''Refusal'', 0.3, None)
               else if random_draw rnd < SIMULATED_FAILURE_RATE then
                 (choice DEFAULT_FALLBACK_RESPONSES (choice_index rnd),
                  Some ''Simulated Low Confidence'', uniform_draw rnd, None)
               else (t, None, 1.0, None)
           | NoAttr \<Rightarrow>
               (case prompt_feedback response of
                  AttrRaises e \<Rightarrow> api_error e
                | NoAttr \<Rightarrow> format_error
                | Attr NoFeedback \<Rightarrow> api_error (none_has_no_attribute ''block_reason'')
                | Attr (BlockReason None) \<Rightarrow> format_error
                | Attr (BlockReason (Some block_reason)) \<Rightarrow>
                    (''My response was blocked due to safety settings ('' @ block_reason
                       @ ''). Please try phrasing differently.'',
                     Some ''Content Blocked'', 0.1,
                     Some (PyStr (''Blocked due to '' @ block_reason))))))"

text \<open>\<open>cleaned_input in self.learned_knowledge\<close> and the value stored there; a list of log
  entries has no string as a member.\<close>

definition knowledge_lookup :: "json_value \<Rightarrow> string \<Rightarrow> string option" where
  "knowledge_lookup v k = (case v of Object d \<Rightarrow> map_of d k | Array xs \<Rightarrow> None)"

text \<open>
  \<open>genai_model\<close> is \<open>None\<close> when the global of that name is not set. The last component of
  the result lists the prompts sent to the model during the call. \<open>log_error\<close> is called
  after the \<open>try\<close> statement, so its exception leaves \<open>generate_response\<close>.
\<close>

definition generate_response ::
  "chatbot \<Rightarrow> files \<Rightarrow> (string \<Rightarrow> call_outcome) option \<Rightarrow> rng \<Rightarrow> write_result \<Rightarrow> string \<Rightarrow>
   string \<Rightarrow> chat_message list \<Rightarrow> (exn + string \<times> int option) \<times> chatbot \<times> files \<times> string list" where
  "generate_response s fs genai_model rnd w iso_now u_input chat_history =
     (let cleaned_input = strip (lower u_input) in
      if cleaned_input = [] then (Inr (''Please provide some input!'', None), s, fs, [])
      else
        case knowledge_lookup (learned_knowledge s) cleaned_input of
          Some learned \<Rightarrow> (Inr (learned, None), s, fs, [])
        | None \<Rightarrow>
            (case genai_model of
               None \<Rightarrow> (Inr (''Error: AI Model not available.'', None), s, fs, [])
             | Some generate_content \<Rightarrow>
                 (let prompt = prompt_for_genai chat_history u_input;
                      (bot_response_text, e_type, sim_confidence, genai_error_info) =
                        detect_failures rnd (generate_content prompt)
                  in case e_type of
                       None \<Rightarrow> (Inr (bot_response_text, None), s, fs, [prompt])
                     | Some et \<Rightarrow>
                         (let (logged, s', fs') =
                                log_error s fs w iso_now u_input bot_response_text et
                                  (Some sim_confidence) genai_error_info
                          in (case logged of
                                Inl e \<Rightarrow> Inl e
                              | Inr log_idx \<Rightarrow> Inr (bot_response_text, log_idx),
                              s', fs', [prompt])))))"

subsection \<open>\<open>analyze_errors\<close>\<close>

text \<open>A \<open>Counter\<close> keeps its keys in the order of their first insertion.\<close>

type_synonym counter = "(string \<times> nat) list"

text \<open>\<open>c[k]\<close> is 0 for a key that the counter does not hold; \<open>c[k] += 1\<close> updates the
  entry of a key in place and puts a new key last.\<close>

definition counter_get :: "counter \<Rightarrow> string \<Rightarrow> nat" where
  "counter_get c k = (case map_of c k of None \<Rightarrow> 0 | Some n \<Rightarrow> n)"

definition counter_inc :: "string \<Rightarrow> counter \<Rightarrow> counter" where
  "counter_inc k c = AList.update k (counter_get c k + 1) c"

text \<open>\<open>most_common()\<close> sorts by descending count and keeps the order of equal counts;
  \<open>most_common(1)\<close> is the first entry of maximal count, if there is an entry.\<close>

definition most_common :: "counter \<Rightarrow> (string \<times> nat) list" where
  "most_common c = sort_key (\<lambda>(k, n). - int n) c"

fun most_common_1 :: "counter \<Rightarrow> (string \<times> nat) option" where
  "most_common_1 [] = None"
| "most_common_1 (p # ps) =
     (case most_common_1 ps of
        None \<Rightarrow> Some p
      | Some q \<Rightarrow> if snd p < snd q then Some q else Some p)"

record tallies =
  error_counts :: counter
  inputs_by_error_type :: "(string \<times> counter) list"
  inputs_with_feedback :: counter

definition initial_tallies :: tallies where
  "initial_tallies =
     \<lparr>error_counts = [],
      inputs_by_error_type =
        map (\<lambda>e_type. (e_type, []))
          [''Knowledge Gap'', ''Refusal'', ''Simulated Low Confidence'', ''API Error'',
           ''Content Blocked'', ''API Response Format Error''],
      inputs_with_feedback = []\<rparr>"

definition valid_feedback :: "string option \<Rightarrow> bool" where
  "valid_feedback fb =
     (case fb of
        None \<Rightarrow> False
      | Some f \<Rightarrow> f \<noteq> [] \<and> \<not> List.member [''skipped'', ''skipped_empty'', ''skipped_eof''] f
                  \<and> \<not> startswith f ''error:'')"

text \<open>The body of the loop over the log.\<close>

definition tally_log :: "tallies \<Rightarrow> log_entry \<Rightarrow> tallies" where
  "tally_log t entry =
     (let e_type = error_type entry;
          t1 = t\<lparr>error_counts := counter_inc e_type (error_counts t)\<rparr>;
          user_input_clean = strip (lower (user_input entry))
      in if user_input_clean = [] then t1
         else
           (let t2 = (case map_of (inputs_by_error_type t1) e_type of
                        None \<Rightarrow> t1
                      | Some c \<Rightarrow>
                          t1\<lparr>inputs_by_error_type :=
                               AList.update e_type (counter_inc user_input_clean c)
                                 (inputs_by_error_type t1)\<rparr>)
            in if valid_feedback (feedback_provided entry)
               then t2\<lparr>inputs_with_feedback := counter_inc user_input_clean (inputs_with_feedback t2)\<rparr>
               else t2))"

definition candidate_types_priority :: "string list" where
  "candidate_types_priority = [''Refusal'', ''Knowledge Gap'']"

record scan =
  analysis_output :: "string list"
  highest_freq :: nat
  learning_candidate :: "(string \<times> string) option"

definition most_frequent_line :: "string \<Rightarrow> string \<Rightarrow> nat \<Rightarrow> string" where
  "most_frequent_line e_type top_input_str top_input_count =
     newline @ ''Most frequent input for '' @ apostrophe @ e_type @ apostrophe @ '': ''
       @ apostrophe @ top_input_str @ apostrophe @ '' ('' @ str_nat top_input_count @ '' times)''"

text \<open>The body of the loop over \<open>candidate_types_priority\<close>.\<close>

definition consider_type :: "(string \<times> counter) list \<Rightarrow> scan \<Rightarrow> string \<Rightarrow> scan" where
  "consider_type by_type st e_type =
     (case map_of by_type e_type of
        None \<Rightarrow> st
      | Some c \<Rightarrow>
          (case most_common_1 c of
             None \<Rightarrow> st
           | Some (top_input_str, top_input_count) \<Rightarrow>
               (let st1 = st\<lparr>analysis_output := analysis_output st
                               @ [most_frequent_line e_type top_input_str top_input_count]\<rparr>
                in if highest_freq st1 < top_input_count
                   then st1\<lparr>highest_freq := top_input_count,
                            learning_candidate := Some (e_type, top_input_str)\<rparr>
                   else st1)))"

definition select_candidate :: "string list \<Rightarrow> tallies \<Rightarrow> scan" where
  "select_candidate out t =
     foldl (consider_type (inputs_by_error_type t))
       \<lparr>analysis_output = out, highest_freq = 1, learning_candidate = None\<rparr>
       candidate_types_priority"

definition summary_lines :: "counter \<Rightarrow> string list" where
  "summary_lines c =
     (if c = [] then ['' - No errors found in logs.'']
      else map (\<lambda>(e_type, n). ''- '' @ e_type @ '': '' @ str_nat n @ '' occurrence(s)'')
             (most_common c))"

definition feedback_lines :: "counter \<Rightarrow> string list" where
  "feedback_lines c =
     (if c = [] then []
      else (newline @ ''Inputs with User Feedback Provided (Top 5):'')
           # map (\<lambda>(inp, n). ''- '' @ apostrophe @ inp @ apostrophe @ '' ('' @ str_nat n
                                @ '' feedback instance(s))'')
               (take 5 (most_common c)))"

definition analyze_errors :: "chatbot \<Rightarrow> string \<times> (string \<times> string) option" where
  "analyze_errors s =
     (case error_logs s of
        Object d \<Rightarrow>
          (join newline [''--- Analyzing Error Logs ---'', ''No errors logged or logs are invalid.'',
                         ''--- Analysis Complete ---''], None)
      | Array logs \<Rightarrow>
          if logs = [] then
            (join newline [''--- Analyzing Error Logs ---'', ''No errors logged or logs are invalid.'',
                           ''--- Analysis Complete ---''], None)
          else
            (let t = foldl tally_log initial_tallies logs;
                 out = [''--- Analyzing Error Logs ---'', ''Error Type Summary:'']
                       @ summary_lines (error_counts t);
                 st = select_candidate out t
             in (join newline (analysis_output st @ feedback_lines (inputs_with_feedback t)
                               @ [''--- Analysis Complete ---'']),
                 learning_candidate st)))"

subsection \<open>Operations, runs and tallies used in the statements\<close>

text \<open>The entries that the log of \<open>s'\<close> has beyond the length of the log of \<open>s\<close>.\<close>

definition appended_entries :: "chatbot \<Rightarrow> chatbot \<Rightarrow> log_entry list" where
  "appended_entries s s' =
     drop (length (ensure_list (error_logs s))) (ensure_list (error_logs s'))"

text \<open>The public methods of the class, each with what it takes from its caller and from
  the environment.\<close>

datatype operation =
    LogError write_result string string string string "real option" "py_value option"
  | AddFeedbackToLog write_result int string
  | GenerateResponse "(string \<Rightarrow> call_outcome) option" rng write_result string string "chat_message list"
  | AnalyzeErrors
  | AddLearnedKnowledge write_result string string
  | ClearLogFileData write_result
  | ResetKnowledgeData write_result

fun perform :: "operation \<Rightarrow> chatbot \<times> files \<Rightarrow> chatbot \<times> files" where
  "perform (LogError w iso_now u b e c g) (s, fs) = snd (log_error s fs w iso_now u b e c g)"
| "perform (AddFeedbackToLog w i fb) (s, fs) = snd (add_feedback_to_log s fs w i fb)"
| "perform (GenerateResponse m rnd w iso_now u h) (s, fs) =
     (let (r, s', fs', calls) = generate_response s fs m rnd w iso_now u h in (s', fs'))"
| "perform AnalyzeErrors (s, fs) = (s, fs)"
| "perform (AddLearnedKnowledge w k r) (s, fs) = snd (add_learned_knowledge s fs w k r)"
| "perform (ClearLogFileData w) (s, fs) = snd (clear_log_file_data s fs w)"
| "perform (ResetKnowledgeData w) (s, fs) = snd (reset_knowledge_data s fs w)"

fun is_clear :: "operation \<Rightarrow> bool" where
  "is_clear (ClearLogFileData w) = True"
| "is_clear other = False"

definition run :: "operation list \<Rightarrow> chatbot \<times> files \<Rightarrow> chatbot \<times> files" where
  "run ops st = foldl (\<lambda>st op. perform op st) st ops"

text \<open>
  How often the normalized input \<open>inp\<close> occurs among the entries of category \<open>e_type\<close>.
  Entries whose normalized input is empty are not tallied: the loop of \<open>analyze_errors\<close>
  skips them.
\<close>

definition recurrences :: "string \<Rightarrow> string \<Rightarrow> log_entry list \<Rightarrow> nat" where
  "recurrences e_type inp logs =
     length (filter (\<lambda>entry. error_type entry = e_type \<and> strip (lower (user_input entry)) = inp
                              \<and> inp \<noteq> []) logs)"

definition log_key :: "log_entry \<Rightarrow> string \<times> string" where
  "log_key entry = (error_type entry, strip (lower (user_input entry)))"

text \<open>The log \<open>logs'\<close> keeps every entry of \<open>logs\<close> at its index, up to the feedback field.\<close>

definition log_extends :: "log_entry list \<Rightarrow> log_entry list \<Rightarrow> bool" where
  "log_extends logs logs' =
     (length logs \<le> length logs' \<and>
      (\<forall>j<length logs. (logs' ! j)\<lparr>feedback_provided := feedback_provided (logs ! j)\<rparr> = logs ! j))"

subsection \<open>Concrete inputs\<close>

definition example_entry :: "string \<Rightarrow> string \<Rightarrow> log_entry" where
  "example_entry e_type u =
     \<lparr>timestamp = ''2024-05-01T10:00:00'', user_input = u, bot_response = ''I cannot help with that.'',
      error_type = e_type, simulated_confidence = Some ''0.30'', genai_error_details = None,
      feedback_provided = None\<rparr>"

definition example_bot :: "json_value \<Rightarrow> json_value \<Rightarrow> chatbot" where
  "example_bot kb logs =
     \<lparr>knowledge_file = KNOWLEDGE_FILE, log_file = LOG_FILE, learned_knowledge = kb,
      error_logs = logs\<rparr>"

definition scenario_log :: "log_entry list" where
  "scenario_log =
     [example_entry ''Refusal'' ''Track bus 42'',
      example_entry ''Refusal'' ''track bus 42'',
      example_entry ''Refusal'' '' track BUS 42 '',
      example_entry ''Refusal'' ''college news'',
      example_entry ''API Error'' ''track bus 42'']"

text \<open>The categories and normalized inputs of the candidate-selection scenario, in any order.\<close>

definition scenario_keys :: "(string \<times> string) multiset" where
  "scenario_keys = {#(''Refusal'', ''track bus 42''), (''Refusal'', ''track bus 42''),
      (''Refusal'', ''track bus 42''), (''Refusal'', ''college news''), (''API Error'', ''track bus 42'')#}"

definition example_rng :: rng where
  "example_rng = \<lparr>random_draw = 1 / 2, uniform_draw = 1 / 4, choice_index = 0\<rparr>"

definition example_env :: load_env where
  "example_env = \<lparr>on_write = Written, on_read = ReadOk, rename_ok = True, stamp = ''20240501100000''\<rparr>"

text \<open>The reply for a blocked prompt: the \<open>text\<close> accessor raises, the block reason is set.\<close>

definition blocked_reply :: genai_reply where
  "blocked_reply =
     \<lparr>reply_text = AttrRaises ''The response.text quick accessor only works when the response contains a valid Part'',
      prompt_feedback = Attr (BlockReason (Some ''SAFETY''))\<rparr>"

text \<open>A model reply with a refusal text and no block reason.\<close>

definition refusal_reply :: genai_reply where
  "refusal_reply =
     \<lparr>reply_text = Attr (Some ''Sorry, I cannot do that.''), prompt_feedback = Attr (BlockReason None)\<rparr>"

section \<open>Properties\<close>

lemmas string_eval = strip_def lower_def lower_char_def isspace_def startswith_def

lemma format_2f_refusal: "format_2f 0.3 = ''0.30''"
  by (simp add: format_2f_def str_nat.simps digit_char_def Let_def)

lemma format_2f_fixed:
  "format_2f 0 = ''0.00''" "format_2f (1 / 10) = ''0.10''" "format_2f (1 / 5) = ''0.20''"
  "format_2f (- (1 / 2)) = ''-0.50''"
  by (simp_all add: format_2f_def str_nat.simps digit_char_def Let_def)

subsection \<open>Durable store\<close>

text \<open>
  C8 (as the code has it). On a failing write \<open>save_json_robust\<close> does not report success
  and touches no other file. When \<open>open\<close> is refused, the files are as before. When the
  write is interrupted after \<open>open\<close> has truncated the file, the previous version is gone:
  the file holds the bytes written so far.
\<close>

theorem save_json_robust_failing_write:
  "w \<noteq> Written \<Longrightarrow>
     fst (save_json_robust fs w filename data) \<noteq> Inr True \<and>
     (\<forall>other. other \<noteq> filename \<longrightarrow> snd (save_json_robust fs w filename data) other = fs other) \<and>
     (w = OpenRefused \<longrightarrow> snd (save_json_robust fs w filename data) = fs) \<and>
     (\<forall>part. w = DumpInterrupted part \<longrightarrow>
        snd (save_json_robust fs w filename data) filename = Some (Garbage part))"
  by (cases w) (simp_all add: save_json_robust_def)

theorem save_json_robust_failing_write_witness:
  "DumpInterrupted (NotJson ''['') \<noteq> Written \<and>
   fst (save_json_robust [LOG_FILE \<mapsto> Json (Array [])] (DumpInterrupted (NotJson ''['')) LOG_FILE
          (Array [example_entry ''Refusal'' ''hi''])) \<noteq> Inr True \<and>
   snd (save_json_robust [LOG_FILE \<mapsto> Json (Array [])] (DumpInterrupted (NotJson ''['')) LOG_FILE
          (Array [example_entry ''Refusal'' ''hi''])) LOG_FILE = Some (Garbage (NotJson ''[''))"
  using save_json_robust_failing_write
          [of "DumpInterrupted (NotJson ''['')" "[LOG_FILE \<mapsto> Json (Array [])]" LOG_FILE
              "Array [example_entry ''Refusal'' ''hi'']"]
  by simp

text \<open>
  C8 as stated fails: the log file holds one entry, a save of two entries is interrupted
  after the first byte. The save does not return \<open>False\<close> (the exception of \<open>st.toast\<close>
  leaves it), the file no longer holds the previous document, and a following load yields
  the default (the empty log) instead of it.
\<close>

theorem save_json_robust_counterexample:
  "save_json_robust [LOG_FILE \<mapsto> Json (Array [example_entry ''Refusal'' ''hi''])]
          (DumpInterrupted (NotJson ''['')) LOG_FILE
          (Array [example_entry ''Refusal'' ''hi'', example_entry ''Refusal'' ''again'']) =
     (Inl StreamlitAPIException, [LOG_FILE \<mapsto> Garbage (NotJson ''['')]) \<and>
   [LOG_FILE \<mapsto> Garbage (NotJson ''['')] LOG_FILE
     \<noteq> [LOG_FILE \<mapsto> Json (Array [example_entry ''Refusal'' ''hi''])] LOG_FILE \<and>
   fst (load_json_robust [LOG_FILE \<mapsto> Garbage (NotJson ''['')] example_env LOG_FILE (Array []))
     = Inr (Array [])"
  by (simp add: save_json_robust_def load_json_robust_def example_env_def)

lemma backup_filename_distinct: "backup_filename filename st \<noteq> filename"
  by (simp add: backup_filename_def)

text \<open>
  C9 as stated fails: the knowledge file holds bytes that are not UTF-8 (an opening brace
  and the first byte of a two-byte character). The load returns the default, but the file is
  not renamed: it stays under its name, and nothing is stored under the quarantine name.
\<close>

theorem load_json_robust_counterexample:
  "load_json_robust [KNOWLEDGE_FILE \<mapsto> Garbage (NotUtf8 [CHR 0x7B, CHR 0xC3])] example_env
       KNOWLEDGE_FILE (Object DEFAULT_KNOWLEDGE) =
     (Inr (Object DEFAULT_KNOWLEDGE), [KNOWLEDGE_FILE \<mapsto> Garbage (NotUtf8 [CHR 0x7B, CHR 0xC3])]) \<and>
   [KNOWLEDGE_FILE \<mapsto> Garbage (NotUtf8 [CHR 0x7B, CHR 0xC3])]
       (backup_filename KNOWLEDGE_FILE (stamp example_env)) = None"
  by (simp add: load_json_robust_def example_env_def backup_filename_def KNOWLEDGE_FILE_def)

text \<open>
  C9 (as the code has it). When the file exists, can be opened and holds text at which
  \<open>json.load\<close> raises \<open>JSONDecodeError\<close>, \<open>load_json_robust\<close> returns the default; the
  quarantine name differs from the file's name; if the rename goes through, the bytes are
  found under the quarantine name and the old name is free, and if the operating system
  refuses the rename, the files are as before; in both cases the bytes are still stored.
  When the file holds bytes that are not UTF-8, the default is returned and the files are as
  before. When no file exists and the write of the default succeeds, the default is returned
  and the file holds it.
\<close>

theorem load_json_robust_recovery:
  "(fs filename = Some (Garbage (NotJson bytes)) \<and> on_read env = ReadOk \<longrightarrow>
      fst (load_json_robust fs env filename default_data) = Inr default_data \<and>
      backup_filename filename (stamp env) \<noteq> filename \<and>
      (rename_ok env \<longrightarrow>
         snd (load_json_robust fs env filename default_data) =
           (fs(filename := None))(backup_filename filename (stamp env) \<mapsto> Garbage (NotJson bytes))) \<and>
      (\<not> rename_ok env \<longrightarrow> snd (load_json_robust fs env filename default_data) = fs) \<and>
      (\<exists>name. snd (load_json_robust fs env filename default_data) name = Some (Garbage (NotJson bytes)))) \<and>
   (fs filename = Some (Garbage (NotUtf8 bytes)) \<longrightarrow>
      load_json_robust fs env filename default_data = (Inr default_data, fs)) \<and>
   (fs filename = None \<and> on_write env = Written \<longrightarrow>
      load_json_robust fs env filename default_data =
        (Inr default_data, fs(filename \<mapsto> Json default_data)))"
proof -
  have corrupt: "fst (load_json_robust fs env filename default_data) = Inr default_data \<and>
      (rename_ok env \<longrightarrow>
         snd (load_json_robust fs env filename default_data) =
           (fs(filename := None))(backup_filename filename (stamp env) \<mapsto> Garbage (NotJson bytes))) \<and>
      (\<not> rename_ok env \<longrightarrow> snd (load_json_robust fs env filename default_data) = fs)"
    if "fs filename = Some (Garbage (NotJson bytes))" "on_read env = ReadOk"
    using that by (simp add: load_json_robust_def rename_def)
  have remains: "\<exists>name. snd (load_json_robust fs env filename default_data) name
      = Some (Garbage (NotJson bytes))"
    if h: "fs filename = Some (Garbage (NotJson bytes))" "on_read env = ReadOk"
  proof (cases "rename_ok env")
    case True
    with corrupt[OF h] have "snd (load_json_robust fs env filename default_data)
        (backup_filename filename (stamp env)) = Some (Garbage (NotJson bytes))" by simp
    then show ?thesis ..
  next
    case False
    with corrupt[OF h] h(1) have "snd (load_json_robust fs env filename default_data) filename
        = Some (Garbage (NotJson bytes))" by simp
    then show ?thesis ..
  qed
  have not_text: "load_json_robust fs env filename default_data = (Inr default_data, fs)"
    if "fs filename = Some (Garbage (NotUtf8 bytes))"
    using that by (cases "on_read env") (simp_all add: load_json_robust_def)
  have missing: "load_json_robust fs env filename default_data =
        (Inr default_data, fs(filename \<mapsto> Json default_data))"
    if "fs filename = None" "on_write env = Written"
    using that by (simp add: load_json_robust_def save_json_robust_def)
  from corrupt remains not_text missing backup_filename_distinct show ?thesis by blast
qed

theorem load_json_robust_recovery_witness:
  "[KNOWLEDGE_FILE \<mapsto> Garbage (NotJson ''{oops'')] KNOWLEDGE_FILE = Some (Garbage (NotJson ''{oops'')) \<and>
   on_read example_env = ReadOk \<and> rename_ok example_env \<and>
   fst (load_json_robust [KNOWLEDGE_FILE \<mapsto> Garbage (NotJson ''{oops'')] example_env KNOWLEDGE_FILE
          (Object DEFAULT_KNOWLEDGE)) = Inr (Object DEFAULT_KNOWLEDGE) \<and>
   snd (load_json_robust [KNOWLEDGE_FILE \<mapsto> Garbage (NotJson ''{oops'')] example_env KNOWLEDGE_FILE
          (Object DEFAULT_KNOWLEDGE)) (KNOWLEDGE_FILE @ ''.bad_20240501100000'')
     = Some (Garbage (NotJson ''{oops'')) \<and>
   [LOG_FILE \<mapsto> Garbage (NotUtf8 [CHR 0x5B, CHR 0xC3])] LOG_FILE
     = Some (Garbage (NotUtf8 [CHR 0x5B, CHR 0xC3])) \<and>
   load_json_robust [LOG_FILE \<mapsto> Garbage (NotUtf8 [CHR 0x5B, CHR 0xC3])] example_env LOG_FILE (Array []) =
     (Inr (Array []), [LOG_FILE \<mapsto> Garbage (NotUtf8 [CHR 0x5B, CHR 0xC3])]) \<and>
   Map.empty KNOWLEDGE_FILE = (None :: file_content option) \<and> on_write example_env = Written \<and>
   load_json_robust Map.empty example_env KNOWLEDGE_FILE (Object DEFAULT_KNOWLEDGE) =
     (Inr (Object DEFAULT_KNOWLEDGE), [KNOWLEDGE_FILE \<mapsto> Json (Object DEFAULT_KNOWLEDGE)])"
  using load_json_robust_recovery
          [of "[KNOWLEDGE_FILE \<mapsto> Garbage (NotJson ''{oops'')]" KNOWLEDGE_FILE "''{oops''" example_env
              "Object DEFAULT_KNOWLEDGE"]
        load_json_robust_recovery
          [of "[LOG_FILE \<mapsto> Garbage (NotUtf8 [CHR 0x5B, CHR 0xC3])]" LOG_FILE "[CHR 0x5B, CHR 0xC3]"
              example_env "Array []"]
        load_json_robust_recovery
          [of Map.empty KNOWLEDGE_FILE "''{oops''" example_env "Object DEFAULT_KNOWLEDGE"]
  by (simp add: example_env_def backup_filename_def)

subsection \<open>Shortcuts of \<open>generate_response\<close>\<close>

text \<open>
  C10. An input that is empty after lower-casing and trimming is answered with the fixed
  text and no log index. The answer is the same for every knowledge table and every model,
  the chatbot and the files are returned as they were, and no prompt is sent.
\<close>

theorem generate_response_empty_input:
  "strip (lower u_input) = [] \<Longrightarrow>
     generate_response s fs genai_model rnd w iso_now u_input chat_history =
       (Inr (''Please provide some input!'', None), s, fs, [])"
  by (simp add: generate_response_def)

theorem generate_response_empty_input_witness:
  "strip (lower ''   '') = [] \<and>
   generate_response (example_bot (Object [([], ''stored'')]) (Array scenario_log)) Map.empty
       (Some (\<lambda>p. Raised ''down'')) example_rng Written ''2024-05-01T10:00:00'' ''   '' [] =
     (Inr (''Please provide some input!'', None),
      example_bot (Object [([], ''stored'')]) (Array scenario_log), Map.empty, [])"
proof -
  have h: "strip (lower ''   '') = []"
    by (simp add: string_eval)
  show ?thesis
    using h generate_response_empty_input [OF h] by simp
qed

text \<open>
  C4 as stated fails when the table has the empty string as a key: the input of three
  blanks normalizes to that key, and the answer is the fixed text of the empty-input guard,
  not the stored response.
\<close>

theorem generate_response_learned_counterexample:
  "knowledge_lookup (learned_knowledge (example_bot (Object [([], ''stored'')]) (Array [])))
       (strip (lower ''   '')) = Some ''stored'' \<and>
   fst (generate_response (example_bot (Object [([], ''stored'')]) (Array [])) Map.empty
       (Some (\<lambda>p. Raised ''down'')) example_rng Written ''2024-05-01T10:00:00'' ''   '' [])
     = Inr (''Please provide some input!'', None)"
  by (simp add: generate_response_def knowledge_lookup_def example_bot_def string_eval)

text \<open>
  C4 (as the code has it). An input whose normalized form is not empty and is a key of the
  knowledge table is answered with the stored response and no log index; whatever the error
  log holds, the chatbot and the files are returned as they were and no prompt is sent.
\<close>

theorem generate_response_learned:
  "strip (lower u_input) \<noteq> [] \<Longrightarrow>
   knowledge_lookup (learned_knowledge s) (strip (lower u_input)) = Some learned \<Longrightarrow>
     generate_response s fs genai_model rnd w iso_now u_input chat_history =
       (Inr (learned, None), s, fs, [])"
  by (simp add: generate_response_def)

theorem generate_response_learned_witness:
  "strip (lower '' Help '') \<noteq> [] \<and>
   knowledge_lookup (learned_knowledge (example_bot (Object [(''help'', ''stored'')]) (Array scenario_log)))
       (strip (lower '' Help '')) = Some ''stored'' \<and>
   generate_response (example_bot (Object [(''help'', ''stored'')]) (Array scenario_log)) Map.empty
       (Some (\<lambda>p. Raised ''down'')) example_rng Written ''2024-05-01T10:00:00'' '' Help '' [] =
     (Inr (''stored'', None), example_bot (Object [(''help'', ''stored'')]) (Array scenario_log),
      Map.empty, [])"
proof -
  have h1: "strip (lower '' Help '') \<noteq> []"
    by (simp add: string_eval)
  have h2: "knowledge_lookup (learned_knowledge (example_bot (Object [(''help'', ''stored'')]) (Array scenario_log)))
       (strip (lower '' Help '')) = Some ''stored''"
    by (simp add: knowledge_lookup_def example_bot_def string_eval)
  show ?thesis
    using h1 h2 generate_response_learned [OF h1 h2] by simp
qed

subsection \<open>Classification of a model reply\<close>

lemma log_error_logs:
  "error_logs (fst (snd (log_error s fs w iso_now u b e c g))) =
     Array (ensure_list (error_logs s) @
       [\<lparr>timestamp = iso_now, user_input = u, bot_response = b, error_type = e,
         simulated_confidence = map_option format_2f c,
         genai_error_details = (case g of None \<Rightarrow> None | Some x \<Rightarrow> if truthy x then Some (str_of x) else None),
         feedback_provided = None\<rparr>])"
  by (simp add: log_error_def Let_def split_def)

lemma appended_entries_log_error:
  "appended_entries s (fst (snd (log_error s fs w iso_now u b e c g))) =
     [\<lparr>timestamp = iso_now, user_input = u, bot_response = b, error_type = e,
       simulated_confidence = map_option format_2f c,
       genai_error_details = (case g of None \<Rightarrow> None | Some x \<Rightarrow> if truthy x then Some (str_of x) else None),
       feedback_provided = None\<rparr>]"
  by (simp add: log_error_logs appended_entries_def ensure_list_def)

lemma log_error_result:
  "fst (log_error s fs w iso_now u b e c g) =
     (if w = Written then Inr (Some (int (length (ensure_list (error_logs s)))))
      else Inl StreamlitAPIException)"
  by (cases w) (simp_all add: log_error_def save_json_robust_def Let_def)

lemma appended_entries_same: "appended_entries s s = []"
  by (simp add: appended_entries_def)

text \<open>The category and the confidence logged for each outcome of the model call (nothing is
  logged for a clean reply).\<close>

lemma generate_response_categories:
  assumes "strip (lower u_input) \<noteq> []"
    and "knowledge_lookup (learned_knowledge s) (strip (lower u_input)) = None"
  shows "map (\<lambda>entry. (error_type entry, simulated_confidence entry))
           (appended_entries s
              (fst (snd (generate_response s fs (Some generate_content) rnd w iso_now u_input chat_history)))) =
     (case generate_content (prompt_for_genai chat_history u_input) of
        Raised e \<Rightarrow> [(''API Error'', Some ''0.00'')]
      | Returned None \<Rightarrow> [(''API Response Format Error'', Some ''0.20'')]
      | Returned (Some response) \<Rightarrow>
          (case reply_text response of
             AttrRaises e \<Rightarrow> [(''API Error'', Some ''0.00'')]
           | Attr None \<Rightarrow> [(''API Error'', Some ''0.00'')]
           | Attr (Some t) \<Rightarrow>
               if \<exists>phrase \<in> set REFUSAL_PHRASES. contains (lower t) phrase
               then [(''Refusal'', Some ''0.30'')]
               else if random_draw rnd < SIMULATED_FAILURE_RATE
               then [(''Simulated Low Confidence'', Some (format_2f (uniform_draw rnd)))]
               else []
           | NoAttr \<Rightarrow>
               (case prompt_feedback response of
                  AttrRaises e \<Rightarrow> [(''API Error'', Some ''0.00'')]
                | NoAttr \<Rightarrow> [(''API Response Format Error'', Some ''0.20'')]
                | Attr NoFeedback \<Rightarrow> [(''API Error'', Some ''0.00'')]
                | Attr (BlockReason None) \<Rightarrow> [(''API Response Format Error'', Some ''0.20'')]
                | Attr (BlockReason (Some block_reason)) \<Rightarrow> [(''Content Blocked'', Some ''0.10'')])))"
  using assms
  by (simp add: generate_response_def detect_failures_def Let_def appended_entries_log_error
        appended_entries_same format_2f_fixed format_2f_refusal list_ex_iff split_def
      split: call_outcome.splits option.splits attr.splits feedback.splits)

text \<open>
  C2. The reply that the library returns for a blocked prompt carries the block reason
  \<open>SAFETY\<close>, and its \<open>text\<close> accessor raises. \<open>generate_response\<close> does not reach its
  branch for blocked content: \<open>hasattr(response, 'text')\<close> lets the exception through to
  \<open>except Exception\<close>, and the interaction is logged as \<open>API Error\<close> with confidence
  \<open>0.00\<close> and answered with the text for a technical difficulty.
\<close>

theorem generate_response_blocked_reply:
  "prompt_feedback blocked_reply = Attr (BlockReason (Some ''SAFETY'')) \<and>
   fst (generate_response (example_bot (Object []) (Array [])) Map.empty
          (Some (\<lambda>p. Returned (Some blocked_reply)))
          example_rng Written ''2024-05-01T10:00:00'' ''hello'' []) =
     Inr (''I'm sorry, I encountered a technical difficulty trying to generate a response.'', Some 0) \<and>
   map (\<lambda>entry. (error_type entry, simulated_confidence entry))
     (appended_entries (example_bot (Object []) (Array []))
       (fst (snd (generate_response (example_bot (Object []) (Array [])) Map.empty
          (Some (\<lambda>p. Returned (Some blocked_reply)))
          example_rng Written ''2024-05-01T10:00:00'' ''hello'' [])))) =
     [(''API Error'', Some ''0.00'')]"
  by (simp add: generate_response_def detect_failures_def Let_def appended_entries_log_error
        log_error_result split_def blocked_reply_def example_bot_def knowledge_lookup_def
        ensure_list_def format_2f_fixed string_eval)

text \<open>
  C3. When the model returns a reply whose text, lower-cased, contains one of the refusal
  phrases (\<open>i cannot\<close> is one), exactly one entry is appended to the log: category
  \<open>Refusal\<close>, confidence \<open>0.30\<close>, the raw user input and the reply text unchanged. When the
  log file is written, the method returns the reply text as it is, with the position of that
  entry as log index.
\<close>

theorem generate_response_refusal:
  assumes "strip (lower u_input) \<noteq> []"
    and "knowledge_lookup (learned_knowledge s) (strip (lower u_input)) = None"
    and "generate_content (prompt_for_genai chat_history u_input) = Returned (Some response)"
    and "reply_text response = Attr (Some t)"
    and "\<exists>phrase \<in> set REFUSAL_PHRASES. contains (lower t) phrase"
  shows "appended_entries s
           (fst (snd (generate_response s fs (Some generate_content) rnd w iso_now u_input chat_history))) =
           [\<lparr>timestamp = iso_now, user_input = u_input, bot_response = t, error_type = ''Refusal'',
             simulated_confidence = Some ''0.30'', genai_error_details = None,
             feedback_provided = None\<rparr>] \<and>
         (w = Written \<longrightarrow>
            fst (generate_response s fs (Some generate_content) rnd w iso_now u_input chat_history) =
              Inr (t, Some (int (length (ensure_list (error_logs s)))))) \<and>
         ''i cannot'' \<in> set REFUSAL_PHRASES"
  using assms
  by (simp add: generate_response_def detect_failures_def Let_def appended_entries_log_error
        log_error_result format_2f_refusal list_ex_iff split_def REFUSAL_PHRASES_def)

theorem generate_response_refusal_witness:
  "strip (lower ''Track bus 42'') \<noteq> [] \<and>
   knowledge_lookup (learned_knowledge (example_bot (Object []) (Array scenario_log)))
     (strip (lower ''Track bus 42'')) = None \<and>
   (\<exists>phrase \<in> set REFUSAL_PHRASES. contains (lower ''Sorry, I cannot do that.'') phrase) \<and>
   fst (generate_response (example_bot (Object []) (Array scenario_log)) Map.empty
       (Some (\<lambda>p. Returned (Some refusal_reply))) example_rng Written ''2024-05-01T10:00:00''
       ''Track bus 42'' []) = Inr (''Sorry, I cannot do that.'', Some 5) \<and>
   appended_entries (example_bot (Object []) (Array scenario_log))
     (fst (snd (generate_response (example_bot (Object []) (Array scenario_log)) Map.empty
       (Some (\<lambda>p. Returned (Some refusal_reply))) example_rng Written ''2024-05-01T10:00:00''
       ''Track bus 42'' []))) =
     [\<lparr>timestamp = ''2024-05-01T10:00:00'', user_input = ''Track bus 42'',
       bot_response = ''Sorry, I cannot do that.'', error_type = ''Refusal'',
       simulated_confidence = Some ''0.30'', genai_error_details = None, feedback_provided = None\<rparr>]"
proof -
  have h1: "strip (lower ''Track bus 42'') \<noteq> []"
    by (simp add: string_eval)
  have h2: "knowledge_lookup (learned_knowledge (example_bot (Object []) (Array scenario_log)))
     (strip (lower ''Track bus 42'')) = None"
    by (simp add: knowledge_lookup_def example_bot_def)
  have h3: "(\<lambda>p. Returned (Some refusal_reply)) (prompt_for_genai [] ''Track bus 42'')
      = Returned (Some refusal_reply)"
    by simp
  have h4: "reply_text refusal_reply = Attr (Some ''Sorry, I cannot do that.'')"
    by (simp add: refusal_reply_def)
  have h5: "\<exists>phrase \<in> set REFUSAL_PHRASES. contains (lower ''Sorry, I cannot do that.'') phrase"
    by (simp add: REFUSAL_PHRASES_def string_eval)
  show ?thesis
    using h1 h2 h5
      generate_response_refusal [OF h1 h2 h3 h4 h5, of Map.empty example_rng Written "''2024-05-01T10:00:00''"]
    by (simp add: example_bot_def scenario_log_def ensure_list_def)
qed

subsection \<open>The error log and the knowledge table\<close>

lemma add_feedback_to_log_logs:
  "error_logs s = Array logs \<Longrightarrow>
   error_logs (fst (snd (add_feedback_to_log s fs w i fb))) =
     (if 0 \<le> i \<and> i < int (length logs)
      then Array (logs[nat i := (logs ! nat i)\<lparr>feedback_provided := Some fb\<rparr>])
      else Array logs)"
  by (simp add: add_feedback_to_log_def Let_def split_def)

lemma add_feedback_to_log_result:
  "error_logs s = Array logs \<Longrightarrow> 0 \<le> i \<Longrightarrow> i < int (length logs) \<Longrightarrow>
   fst (add_feedback_to_log s fs Written i fb) = Inr True"
  by (simp add: add_feedback_to_log_def Let_def split_def save_json_robust_def)

lemma add_feedback_to_log_rejects:
  "\<not> (0 \<le> i \<and> i < int (length (ensure_list (error_logs s)))) \<Longrightarrow>
   add_feedback_to_log s fs w i fb = (Inr False, s, fs)"
  by (auto simp add: add_feedback_to_log_def ensure_list_def split: json_value.splits)

lemma generate_response_logs:
  "error_logs s = Array logs \<Longrightarrow>
   error_logs (fst (snd (generate_response s fs m rnd w iso_now u h))) = Array logs \<or>
   (\<exists>entry. error_logs (fst (snd (generate_response s fs m rnd w iso_now u h))) = Array (logs @ [entry]))"
  by (simp add: generate_response_def Let_def split_def log_error_logs ensure_list_def
      split: option.splits)

lemma add_learned_knowledge_logs:
  "error_logs (fst (snd (add_learned_knowledge s fs w k r))) = error_logs s"
  by (simp add: add_learned_knowledge_def Let_def split_def)

lemma reset_knowledge_data_logs:
  "error_logs (fst (snd (reset_knowledge_data s fs w))) = error_logs s"
  by (simp add: reset_knowledge_data_def Let_def split_def)

lemma clear_log_file_data_logs:
  "error_logs (fst (snd (clear_log_file_data s fs w))) = Array []"
  by (simp add: clear_log_file_data_def Let_def split_def)

lemma log_extends_refl: "log_extends logs logs"
  by (simp add: log_extends_def)

lemma log_extends_trans:
  assumes "log_extends a b" "log_extends b c"
  shows "log_extends a c"
  unfolding log_extends_def
proof (intro conjI allI impI)
  show "length a \<le> length c"
    using assms by (simp add: log_extends_def)
next
  fix j assume j: "j < length a"
  then have jb: "j < length b" using assms(1) by (simp add: log_extends_def)
  have 1: "(b ! j)\<lparr>feedback_provided := feedback_provided (a ! j)\<rparr> = a ! j"
    using assms(1) j by (simp add: log_extends_def)
  have 2: "(c ! j)\<lparr>feedback_provided := feedback_provided (b ! j)\<rparr> = b ! j"
    using assms(2) jb by (simp add: log_extends_def)
  have "(c ! j)\<lparr>feedback_provided := feedback_provided (a ! j)\<rparr> =
        ((c ! j)\<lparr>feedback_provided := feedback_provided (b ! j)\<rparr>)\<lparr>feedback_provided := feedback_provided (a ! j)\<rparr>"
    by simp
  also have "\<dots> = a ! j" using 1 2 by simp
  finally show "(c ! j)\<lparr>feedback_provided := feedback_provided (a ! j)\<rparr> = a ! j" .
qed

lemma log_extends_append: "log_extends logs (logs @ [entry])"
  by (simp add: log_extends_def nth_append)

lemma log_extends_feedback:
  "log_extends logs (logs[k := (logs ! k)\<lparr>feedback_provided := fb\<rparr>])"
proof (cases "k < length logs")
  case True
  then show ?thesis
    by (auto simp add: log_extends_def nth_list_update)
next
  case False
  then show ?thesis
    by (simp add: log_extends_def)
qed

lemma perform_logs:
  assumes "error_logs s = Array logs"
  shows "\<exists>logs'. error_logs (fst (perform op (s, fs))) = Array logs' \<and>
           (logs' = logs \<or> (\<exists>entry. logs' = logs @ [entry]) \<or>
            (\<exists>j<length logs. \<exists>fb. logs' = logs[j := (logs ! j)\<lparr>feedback_provided := Some fb\<rparr>]) \<or>
            (is_clear op \<and> logs' = []))"
proof (cases op)
  case (LogError w iso_now u b e c g)
  then show ?thesis using assms by (simp add: log_error_logs ensure_list_def)
next
  case (AddFeedbackToLog w i fb)
  show ?thesis
  proof (cases "0 \<le> i \<and> i < int (length logs)")
    case True
    then have "nat i < length logs" by linarith
    then show ?thesis
      using AddFeedbackToLog True add_feedback_to_log_logs[OF assms, where i=i and fs=fs and w=w and fb=fb] by auto
  next
    case False
    then show ?thesis
      using AddFeedbackToLog add_feedback_to_log_logs[OF assms, where i=i and fs=fs and w=w and fb=fb] by auto
  qed
next
  case (GenerateResponse m rnd w iso_now u h)
  then show ?thesis
    using generate_response_logs[OF assms, where fs=fs and m=m and rnd=rnd and w=w and iso_now=iso_now and u=u and h=h]
    by (auto simp add: split_def Let_def)
next
  case AnalyzeErrors
  then show ?thesis using assms by simp
next
  case (AddLearnedKnowledge w k r)
  then show ?thesis using assms by (simp add: add_learned_knowledge_logs)
next
  case (ClearLogFileData w)
  then show ?thesis by (simp add: clear_log_file_data_logs)
next
  case (ResetKnowledgeData w)
  then show ?thesis using assms by (simp add: reset_knowledge_data_logs)
qed

lemma perform_extends:
  assumes "error_logs s = Array logs" "\<not> is_clear op"
  shows "\<exists>logs'. error_logs (fst (perform op (s, fs))) = Array logs' \<and> log_extends logs logs'"
proof -
  from perform_logs[OF assms(1), where op=op and fs=fs] obtain logs' where
    l: "error_logs (fst (perform op (s, fs))) = Array logs'" and
    d: "logs' = logs \<or> (\<exists>entry. logs' = logs @ [entry]) \<or>
            (\<exists>j<length logs. \<exists>fb. logs' = logs[j := (logs ! j)\<lparr>feedback_provided := Some fb\<rparr>]) \<or>
            (is_clear op \<and> logs' = [])" by blast
  from d assms(2) have "log_extends logs logs'"
    using log_extends_refl log_extends_append log_extends_feedback by auto
  with l show ?thesis by blast
qed

lemma run_extends:
  "error_logs (fst st) = Array logs \<Longrightarrow> \<not> list_ex is_clear ops \<Longrightarrow>
   \<exists>logs'. error_logs (fst (run ops st)) = Array logs' \<and> log_extends logs logs'"
proof (induction ops arbitrary: st logs)
  case Nil
  then show ?case by (auto simp add: run_def log_extends_refl)
next
  case (Cons op ops)
  obtain s fs where st: "st = (s, fs)" by (cases st)
  from Cons.prems st have "error_logs s = Array logs" "\<not> is_clear op" by simp_all
  from perform_extends[OF this, where fs=fs] obtain logs1 where
    1: "error_logs (fst (perform op (s, fs))) = Array logs1" "log_extends logs logs1" by blast
  from Cons.prems have "\<not> list_ex is_clear ops" by simp
  from Cons.IH[OF 1(1) this] obtain logs2 where
    2: "error_logs (fst (run ops (perform op (s, fs)))) = Array logs2" "log_extends logs1 logs2" by blast
  have "run (op # ops) st = run ops (perform op (s, fs))"
    by (simp add: run_def st)
  with 2 log_extends_trans[OF 1(2) 2(2)] show ?case by auto
qed

text \<open>
  C5. On a log that is a list: \<open>log_error\<close> appends exactly one entry at the end;
  \<open>add_feedback_to_log\<close> overwrites the feedback field of the entry at an index within
  bounds and nothing else (and changes nothing for an index out of bounds);
  \<open>clear_log_file_data\<close> empties the log. Every public method leaves the log as it is,
  appends one entry, sets one feedback field or, being the clear, empties it. Hence after any
  sequence of methods without a clear, every entry is still at its index and differs from
  what it was at most in its feedback.
\<close>

theorem error_log_operations:
  assumes "error_logs s = Array logs"
  shows "(\<exists>entry. error_logs (fst (snd (log_error s fs w iso_now u b e c g))) = Array (logs @ [entry])) \<and>
     error_logs (fst (snd (add_feedback_to_log s fs w i fb))) =
       (if 0 \<le> i \<and> i < int (length logs)
        then Array (logs[nat i := (logs ! nat i)\<lparr>feedback_provided := Some fb\<rparr>])
        else Array logs) \<and>
     error_logs (fst (snd (clear_log_file_data s fs w))) = Array [] \<and>
     (\<forall>op. \<exists>logs'. error_logs (fst (perform op (s, fs))) = Array logs' \<and>
           (logs' = logs \<or> (\<exists>entry. logs' = logs @ [entry]) \<or>
            (\<exists>j<length logs. \<exists>fb. logs' = logs[j := (logs ! j)\<lparr>feedback_provided := Some fb\<rparr>]) \<or>
            (is_clear op \<and> logs' = []))) \<and>
     (\<forall>ops. \<not> list_ex is_clear ops \<longrightarrow>
        (\<exists>logs'. error_logs (fst (run ops (s, fs))) = Array logs' \<and> length logs \<le> length logs' \<and>
           (\<forall>j<length logs. (logs' ! j)\<lparr>feedback_provided := feedback_provided (logs ! j)\<rparr> = logs ! j)))"
proof (intro conjI allI impI)
  show "\<exists>entry. error_logs (fst (snd (log_error s fs w iso_now u b e c g))) = Array (logs @ [entry])"
    using assms by (simp add: log_error_logs ensure_list_def)
  show "error_logs (fst (snd (add_feedback_to_log s fs w i fb))) =
       (if 0 \<le> i \<and> i < int (length logs)
        then Array (logs[nat i := (logs ! nat i)\<lparr>feedback_provided := Some fb\<rparr>])
        else Array logs)"
    by (rule add_feedback_to_log_logs[OF assms])
  show "error_logs (fst (snd (clear_log_file_data s fs w))) = Array []"
    by (rule clear_log_file_data_logs)
next
  fix op
  show "\<exists>logs'. error_logs (fst (perform op (s, fs))) = Array logs' \<and>
           (logs' = logs \<or> (\<exists>entry. logs' = logs @ [entry]) \<or>
            (\<exists>j<length logs. \<exists>fb. logs' = logs[j := (logs ! j)\<lparr>feedback_provided := Some fb\<rparr>]) \<or>
            (is_clear op \<and> logs' = []))"
    by (rule perform_logs[OF assms])
next
  fix ops assume "\<not> list_ex is_clear ops"
  with run_extends[of "(s, fs)" logs ops] assms
  show "\<exists>logs'. error_logs (fst (run ops (s, fs))) = Array logs' \<and> length logs \<le> length logs' \<and>
           (\<forall>j<length logs. (logs' ! j)\<lparr>feedback_provided := feedback_provided (logs ! j)\<rparr> = logs ! j)"
    by (simp add: log_extends_def)
qed


theorem error_log_operations_witness:
  "error_logs (example_bot (Object []) (Array [example_entry ''Refusal'' ''hi''])) =
     Array [example_entry ''Refusal'' ''hi''] \<and>
   \<not> list_ex is_clear [AddFeedbackToLog Written 0 ''skipped'',
                        LogError Written ''2024-05-01T10:00:05'' ''again'' ''no'' ''Refusal'' None None] \<and>
   error_logs (fst (snd (add_feedback_to_log
       (example_bot (Object []) (Array [example_entry ''Refusal'' ''hi''])) Map.empty Written 0 ''skipped''))) =
     Array [(example_entry ''Refusal'' ''hi'')\<lparr>feedback_provided := Some ''skipped''\<rparr>] \<and>
   error_logs (fst (snd (clear_log_file_data
       (example_bot (Object []) (Array [example_entry ''Refusal'' ''hi''])) Map.empty Written))) = Array [] \<and>
   (\<exists>logs'. error_logs (fst (run [AddFeedbackToLog Written 0 ''skipped'',
                        LogError Written ''2024-05-01T10:00:05'' ''again'' ''no'' ''Refusal'' None None]
         (example_bot (Object []) (Array [example_entry ''Refusal'' ''hi'']), Map.empty))) = Array logs' \<and>
      1 \<le> length logs' \<and>
      (logs' ! 0)\<lparr>feedback_provided := None\<rparr> = example_entry ''Refusal'' ''hi'')"
proof -
  have h: "error_logs (example_bot (Object []) (Array [example_entry ''Refusal'' ''hi''])) =
     Array [example_entry ''Refusal'' ''hi'']"
    by (simp add: example_bot_def)
  have c: "\<not> list_ex is_clear [AddFeedbackToLog Written 0 ''skipped'',
                        LogError Written ''2024-05-01T10:00:05'' ''again'' ''no'' ''Refusal'' None None]"
    by simp
  have f: "feedback_provided (example_entry ''Refusal'' ''hi'') = None"
    by (simp add: example_entry_def)
  note t = error_log_operations [OF h, of Map.empty Written "''t''" "''u''" "''b''" "''e''" None None 0 "''skipped''"]
  from t have 1: "error_logs (fst (snd (add_feedback_to_log
       (example_bot (Object []) (Array [example_entry ''Refusal'' ''hi''])) Map.empty Written 0 ''skipped''))) =
     Array [(example_entry ''Refusal'' ''hi'')\<lparr>feedback_provided := Some ''skipped''\<rparr>]"
    by simp
  from t have 2: "error_logs (fst (snd (clear_log_file_data
       (example_bot (Object []) (Array [example_entry ''Refusal'' ''hi''])) Map.empty Written))) = Array []"
    by simp
  from t c have "\<exists>logs'. error_logs (fst (run [AddFeedbackToLog Written 0 ''skipped'',
                        LogError Written ''2024-05-01T10:00:05'' ''again'' ''no'' ''Refusal'' None None]
         (example_bot (Object []) (Array [example_entry ''Refusal'' ''hi'']), Map.empty))) = Array logs' \<and>
      length [example_entry ''Refusal'' ''hi''] \<le> length logs' \<and>
      (\<forall>j<length [example_entry ''Refusal'' ''hi''].
          (logs' ! j)\<lparr>feedback_provided := feedback_provided ([example_entry ''Refusal'' ''hi''] ! j)\<rparr>
            = [example_entry ''Refusal'' ''hi''] ! j)"
    by blast
  then have 3: "\<exists>logs'. error_logs (fst (run [AddFeedbackToLog Written 0 ''skipped'',
                        LogError Written ''2024-05-01T10:00:05'' ''again'' ''no'' ''Refusal'' None None]
         (example_bot (Object []) (Array [example_entry ''Refusal'' ''hi'']), Map.empty))) = Array logs' \<and>
      1 \<le> length logs' \<and>
      (logs' ! 0)\<lparr>feedback_provided := None\<rparr> = example_entry ''Refusal'' ''hi''"
    using f by auto
  from h c 1 2 3 show ?thesis by blast
qed

lemma add_feedback_to_log_fresh:
  "(\<not> (0 \<le> i \<and> i < int (length (ensure_list (error_logs s)))) \<longrightarrow>
      add_feedback_to_log s fs w i fb = (Inr False, s, fs)) \<and>
   (log_error s fs w0 iso_now u b e c g = (Inr (Some k), s', fs') \<longrightarrow>
      k = int (length (ensure_list (error_logs s))) \<and>
      (w = Written \<longrightarrow> fst (add_feedback_to_log s' fs' w k fb) = Inr True) \<and>
      ensure_list (error_logs (fst (snd (add_feedback_to_log s' fs' w k fb)))) =
        ensure_list (error_logs s) @
          [\<lparr>timestamp = iso_now, user_input = u, bot_response = b, error_type = e,
            simulated_confidence = map_option format_2f c,
            genai_error_details =
              (case g of None \<Rightarrow> None | Some x \<Rightarrow> if truthy x then Some (str_of x) else None),
            feedback_provided = Some fb\<rparr>] \<and>
      feedback_provided
        (ensure_list (error_logs (fst (snd (add_feedback_to_log s' fs' w k fb)))) ! nat k) = Some fb \<and>
      (w = Written \<longrightarrow>
         snd (snd (add_feedback_to_log s' fs' w k fb)) (log_file s') =
           Some (Json (error_logs (fst (snd (add_feedback_to_log s' fs' w k fb)))))))"
proof (intro conjI impI)
  assume "\<not> (0 \<le> i \<and> i < int (length (ensure_list (error_logs s))))"
  then show "add_feedback_to_log s fs w i fb = (Inr False, s, fs)"
    by (rule add_feedback_to_log_rejects)
next
  assume a: "log_error s fs w0 iso_now u b e c g = (Inr (Some k), s', fs')"
  define entry where "entry = \<lparr>timestamp = iso_now, user_input = u, bot_response = b, error_type = e,
            simulated_confidence = map_option format_2f c,
            genai_error_details =
              (case g of None \<Rightarrow> None | Some x \<Rightarrow> if truthy x then Some (str_of x) else None),
            feedback_provided = None\<rparr>"
  define old where "old = ensure_list (error_logs s)"
  from a have k: "k = int (length old)"
    using log_error_result[of s fs w0 iso_now u b e c g]
    by (simp add: old_def split: if_splits)
  from a have s': "error_logs s' = Array (old @ [entry])"
    using log_error_logs[of s fs w0 iso_now u b e c g] by (simp add: old_def entry_def)
  have inb: "0 \<le> k" "k < int (length (old @ [entry]))" "nat k = length old"
    using k by simp_all
  show "k = int (length (ensure_list (error_logs s)))"
    using k by (simp add: old_def)
  show "fst (add_feedback_to_log s' fs' w k fb) = Inr True" if "w = Written"
    unfolding that by (rule add_feedback_to_log_result[OF s' inb(1) inb(2)])
  have upd: "error_logs (fst (snd (add_feedback_to_log s' fs' w k fb))) =
      Array (old @ [entry\<lparr>feedback_provided := Some fb\<rparr>])"
    using add_feedback_to_log_logs[OF s', where i=k and fs=fs' and w=w and fb=fb] inb
    by simp
  show "ensure_list (error_logs (fst (snd (add_feedback_to_log s' fs' w k fb)))) =
        ensure_list (error_logs s) @
          [\<lparr>timestamp = iso_now, user_input = u, bot_response = b, error_type = e,
            simulated_confidence = map_option format_2f c,
            genai_error_details =
              (case g of None \<Rightarrow> None | Some x \<Rightarrow> if truthy x then Some (str_of x) else None),
            feedback_provided = Some fb\<rparr>]"
    using upd by (simp add: ensure_list_def old_def entry_def)
  show "feedback_provided
        (ensure_list (error_logs (fst (snd (add_feedback_to_log s' fs' w k fb)))) ! nat k) = Some fb"
    using upd inb(3) by (simp add: ensure_list_def)
  show "snd (snd (add_feedback_to_log s' fs' w k fb)) (log_file s') =
           Some (Json (error_logs (fst (snd (add_feedback_to_log s' fs' w k fb)))))"
    if "w = Written"
    using that s' inb(1,2)
    by (simp add: add_feedback_to_log_def Let_def split_def save_json_robust_def)
qed

lemma add_feedback_after_run:
  assumes a: "log_error s fs w0 iso_now u b e c g = (Inr (Some k), s', fs')"
    and nc: "\<not> list_ex is_clear ops"
  shows "(w = Written \<longrightarrow>
       fst (add_feedback_to_log (fst (run ops (s', fs'))) (snd (run ops (s', fs'))) w k fb) = Inr True) \<and>
     ensure_list (error_logs (fst (snd
        (add_feedback_to_log (fst (run ops (s', fs'))) (snd (run ops (s', fs'))) w k fb)))) ! nat k =
       \<lparr>timestamp = iso_now, user_input = u, bot_response = b, error_type = e,
        simulated_confidence = map_option format_2f c,
        genai_error_details =
          (case g of None \<Rightarrow> None | Some x \<Rightarrow> if truthy x then Some (str_of x) else None),
        feedback_provided = Some fb\<rparr>"
proof -
  define entry where "entry = \<lparr>timestamp = iso_now, user_input = u, bot_response = b, error_type = e,
            simulated_confidence = map_option format_2f c,
            genai_error_details =
              (case g of None \<Rightarrow> None | Some x \<Rightarrow> if truthy x then Some (str_of x) else None),
            feedback_provided = None\<rparr>"
  define old where "old = ensure_list (error_logs s)"
  from a have k: "k = int (length old)"
    using log_error_result[of s fs w0 iso_now u b e c g]
    by (simp add: old_def split: if_splits)
  from a have s': "error_logs s' = Array (old @ [entry])"
    using log_error_logs[of s fs w0 iso_now u b e c g] by (simp add: old_def entry_def)
  from run_extends[of "(s', fs')" "old @ [entry]" ops] s' nc obtain logs2 where
    l2: "error_logs (fst (run ops (s', fs'))) = Array logs2" "log_extends (old @ [entry]) logs2"
    by auto
  from l2(2) have len: "length old < length logs2"
    by (simp add: log_extends_def)
  from l2(2) have "\<forall>j<length (old @ [entry]).
      (logs2 ! j)\<lparr>feedback_provided := feedback_provided ((old @ [entry]) ! j)\<rparr> = (old @ [entry]) ! j"
    by (simp add: log_extends_def)
  then have "(logs2 ! length old)\<lparr>feedback_provided := feedback_provided ((old @ [entry]) ! length old)\<rparr>
      = (old @ [entry]) ! length old"
    by (metis length_append_singleton lessI)
  then have same: "(logs2 ! length old)\<lparr>feedback_provided := None\<rparr> = entry"
    by (simp add: entry_def)
  have inb: "0 \<le> k" "k < int (length logs2)" "nat k = length old"
    using k len by simp_all
  have 1: "w = Written \<longrightarrow>
      fst (add_feedback_to_log (fst (run ops (s', fs'))) (snd (run ops (s', fs'))) w k fb) = Inr True"
    using add_feedback_to_log_result[OF l2(1) inb(1) inb(2)] by simp
  have upd: "error_logs (fst (snd
        (add_feedback_to_log (fst (run ops (s', fs'))) (snd (run ops (s', fs'))) w k fb))) =
      Array (logs2[length old := (logs2 ! length old)\<lparr>feedback_provided := Some fb\<rparr>])"
    using add_feedback_to_log_logs[OF l2(1), where i=k and fs="snd (run ops (s', fs'))" and w=w and fb=fb] inb
    by simp
  have "(logs2 ! length old)\<lparr>feedback_provided := Some fb\<rparr> =
        ((logs2 ! length old)\<lparr>feedback_provided := None\<rparr>)\<lparr>feedback_provided := Some fb\<rparr>"
    by simp
  also have "\<dots> = entry\<lparr>feedback_provided := Some fb\<rparr>"
    by (simp only: same)
  finally have "ensure_list (error_logs (fst (snd
        (add_feedback_to_log (fst (run ops (s', fs'))) (snd (run ops (s', fs'))) w k fb)))) ! nat k =
       entry\<lparr>feedback_provided := Some fb\<rparr>"
    using upd len inb(3) by (simp add: ensure_list_def)
  with 1 show ?thesis by (simp add: entry_def)
qed

text \<open>
  C6. For an index outside the bounds of the log (negative, or at least its length)
  \<open>add_feedback_to_log\<close> returns \<open>False\<close> and the chatbot and the files are as before.
  For the index \<open>k\<close> that \<open>log_error\<close> has just returned, \<open>k\<close> is the position of the
  new entry, and the entry at \<open>k\<close> afterwards is that entry with the given feedback; when
  the log file is written, the method returns \<open>True\<close> and the file holds the updated log.
  The same holds for \<open>k\<close> after any sequence of methods without a clear: the entry at
  \<open>k\<close> is the one that \<open>log_error\<close> appended, with the given feedback, and the method
  returns \<open>True\<close> when the log file is written.
\<close>

theorem add_feedback_to_log_index:
  "(\<not> (0 \<le> i \<and> i < int (length (ensure_list (error_logs s)))) \<longrightarrow>
      add_feedback_to_log s fs w i fb = (Inr False, s, fs)) \<and>
   (log_error s fs w0 iso_now u b e c g = (Inr (Some k), s', fs') \<longrightarrow>
      k = int (length (ensure_list (error_logs s))) \<and>
      (w = Written \<longrightarrow> fst (add_feedback_to_log s' fs' w k fb) = Inr True) \<and>
      ensure_list (error_logs (fst (snd (add_feedback_to_log s' fs' w k fb)))) =
        ensure_list (error_logs s) @
          [\<lparr>timestamp = iso_now, user_input = u, bot_response = b, error_type = e,
            simulated_confidence = map_option format_2f c,
            genai_error_details =
              (case g of None \<Rightarrow> None | Some x \<Rightarrow> if truthy x then Some (str_of x) else None),
            feedback_provided = Some fb\<rparr>] \<and>
      feedback_provided
        (ensure_list (error_logs (fst (snd (add_feedback_to_log s' fs' w k fb)))) ! nat k) = Some fb \<and>
      (w = Written \<longrightarrow>
         snd (snd (add_feedback_to_log s' fs' w k fb)) (log_file s') =
           Some (Json (error_logs (fst (snd (add_feedback_to_log s' fs' w k fb))))))) \<and>
   (log_error s fs w0 iso_now u b e c g = (Inr (Some k), s', fs') \<and> \<not> list_ex is_clear ops \<longrightarrow>
      (w = Written \<longrightarrow>
         fst (add_feedback_to_log (fst (run ops (s', fs'))) (snd (run ops (s', fs'))) w k fb) = Inr True) \<and>
      ensure_list (error_logs (fst (snd
          (add_feedback_to_log (fst (run ops (s', fs'))) (snd (run ops (s', fs'))) w k fb)))) ! nat k =
        \<lparr>timestamp = iso_now, user_input = u, bot_response = b, error_type = e,
         simulated_confidence = map_option format_2f c,
         genai_error_details =
           (case g of None \<Rightarrow> None | Some x \<Rightarrow> if truthy x then Some (str_of x) else None),
         feedback_provided = Some fb\<rparr>)"
  using add_feedback_to_log_fresh [of i s fs w fb w0 iso_now u b e c g k s' fs']
        add_feedback_after_run [of s fs w0 iso_now u b e c g k s' fs' ops w fb]
  by blast

theorem add_feedback_to_log_index_witness:
  "\<not> (0 \<le> (5::int) \<and> 5 < int (length (ensure_list (error_logs
        (example_bot (Object []) (Array [example_entry ''Refusal'' ''hi'']))))))  \<and>
   add_feedback_to_log (example_bot (Object []) (Array [example_entry ''Refusal'' ''hi'']))
       Map.empty Written 5 ''late'' =
     (Inr False, example_bot (Object []) (Array [example_entry ''Refusal'' ''hi'']), Map.empty) \<and>
   log_error (example_bot (Object []) (Array [example_entry ''Refusal'' ''hi'']))
       Map.empty Written ''2024-05-01T10:00:05'' ''again'' ''no'' ''Refusal'' None None =
     (Inr (Some 1),
      example_bot (Object []) (Array [example_entry ''Refusal'' ''hi'',
         \<lparr>timestamp = ''2024-05-01T10:00:05'', user_input = ''again'', bot_response = ''no'',
          error_type = ''Refusal'', simulated_confidence = None, genai_error_details = None,
          feedback_provided = None\<rparr>]),
      [LOG_FILE \<mapsto> Json (Array [example_entry ''Refusal'' ''hi'',
         \<lparr>timestamp = ''2024-05-01T10:00:05'', user_input = ''again'', bot_response = ''no'',
          error_type = ''Refusal'', simulated_confidence = None, genai_error_details = None,
          feedback_provided = None\<rparr>])]) \<and>
   fst (add_feedback_to_log
      (example_bot (Object []) (Array [example_entry ''Refusal'' ''hi'',
         \<lparr>timestamp = ''2024-05-01T10:00:05'', user_input = ''again'', bot_response = ''no'',
          error_type = ''Refusal'', simulated_confidence = None, genai_error_details = None,
          feedback_provided = None\<rparr>]))
      [LOG_FILE \<mapsto> Json (Array [example_entry ''Refusal'' ''hi'',
         \<lparr>timestamp = ''2024-05-01T10:00:05'', user_input = ''again'', bot_response = ''no'',
          error_type = ''Refusal'', simulated_confidence = None, genai_error_details = None,
          feedback_provided = None\<rparr>])]
      Written 1 ''thanks'') = Inr True \<and>
   feedback_provided (ensure_list (error_logs (fst (snd (add_feedback_to_log
      (example_bot (Object []) (Array [example_entry ''Refusal'' ''hi'',
         \<lparr>timestamp = ''2024-05-01T10:00:05'', user_input = ''again'', bot_response = ''no'',
          error_type = ''Refusal'', simulated_confidence = None, genai_error_details = None,
          feedback_provided = None\<rparr>]))
      [LOG_FILE \<mapsto> Json (Array [example_entry ''Refusal'' ''hi'',
         \<lparr>timestamp = ''2024-05-01T10:00:05'', user_input = ''again'', bot_response = ''no'',
          error_type = ''Refusal'', simulated_confidence = None, genai_error_details = None,
          feedback_provided = None\<rparr>])]
      Written 1 ''thanks'')))) ! nat 1) = Some ''thanks''"
proof -
  have h1: "\<not> (0 \<le> (5::int) \<and> 5 < int (length (ensure_list (error_logs
        (example_bot (Object []) (Array [example_entry ''Refusal'' ''hi''])))))) "
    by (simp add: example_bot_def ensure_list_def)
  have h2: "log_error (example_bot (Object []) (Array [example_entry ''Refusal'' ''hi'']))
       Map.empty Written ''2024-05-01T10:00:05'' ''again'' ''no'' ''Refusal'' None None =
     (Inr (Some 1),
      example_bot (Object []) (Array [example_entry ''Refusal'' ''hi'',
         \<lparr>timestamp = ''2024-05-01T10:00:05'', user_input = ''again'', bot_response = ''no'',
          error_type = ''Refusal'', simulated_confidence = None, genai_error_details = None,
          feedback_provided = None\<rparr>]),
      [LOG_FILE \<mapsto> Json (Array [example_entry ''Refusal'' ''hi'',
         \<lparr>timestamp = ''2024-05-01T10:00:05'', user_input = ''again'', bot_response = ''no'',
          error_type = ''Refusal'', simulated_confidence = None, genai_error_details = None,
          feedback_provided = None\<rparr>])])"
    by (simp add: log_error_def example_bot_def ensure_list_def save_json_robust_def Let_def)
  let ?s' = "example_bot (Object []) (Array [example_entry ''Refusal'' ''hi'',
         \<lparr>timestamp = ''2024-05-01T10:00:05'', user_input = ''again'', bot_response = ''no'',
          error_type = ''Refusal'', simulated_confidence = None, genai_error_details = None,
          feedback_provided = None\<rparr>])"
  let ?fs' = "[LOG_FILE \<mapsto> Json (Array [example_entry ''Refusal'' ''hi'',
         \<lparr>timestamp = ''2024-05-01T10:00:05'', user_input = ''again'', bot_response = ''no'',
          error_type = ''Refusal'', simulated_confidence = None, genai_error_details = None,
          feedback_provided = None\<rparr>])]"
  show ?thesis
    using h1 h2
      add_feedback_to_log_index [where i=5 and w=Written and fb="''late''" and fs=Map.empty
         and s="example_bot (Object []) (Array [example_entry ''Refusal'' ''hi''])"]
      add_feedback_to_log_index [where w=Written and fb="''thanks''" and w0=Written and fs=Map.empty
         and s="example_bot (Object []) (Array [example_entry ''Refusal'' ''hi''])"
         and iso_now="''2024-05-01T10:00:05''" and u="''again''" and b="''no''" and e="''Refusal''"
         and c=None and g=None and k=1 and s'="?s'" and fs'="?fs'"]
    by (simp add: example_bot_def ensure_list_def)
qed

text \<open>
  C7 as stated fails: a keyword of three blanks is empty after normalization, yet it
  passes the check; the response is stored under the empty key, the table is written and
  the result is \<open>True\<close>.
\<close>

theorem add_learned_knowledge_counterexample:
  "strip (lower ''   '') = [] \<and>
   add_learned_knowledge (example_bot (Object [(''help'', ''stored'')]) (Array [])) Map.empty Written
       ''   '' ''ok'' =
     (Inr True,
      example_bot (Object [(''help'', ''stored''), ([], ''ok'')]) (Array []),
      [KNOWLEDGE_FILE \<mapsto> Json (Object [(''help'', ''stored''), ([], ''ok'')])])"
  by (simp add: add_learned_knowledge_def example_bot_def save_json_robust_def Let_def string_eval)

text \<open>
  C7 (as the code has it). A keyword or a response that is empty as given is rejected:
  the result is \<open>False\<close>, the chatbot and the files are as before. Otherwise the trimmed
  response is stored under the lower-cased, trimmed keyword, and the result and the files
  are those of \<open>save_json_robust\<close> on the updated table.
\<close>

theorem add_learned_knowledge_validation:
  "(keyword = [] \<or> response = [] \<longrightarrow>
      add_learned_knowledge s fs w keyword response = (Inr False, s, fs)) \<and>
   (keyword \<noteq> [] \<and> response \<noteq> [] \<and> learned_knowledge s = Object kb \<longrightarrow>
      fst (add_learned_knowledge s fs w keyword response) =
        fst (save_json_robust fs w (knowledge_file s)
               (Object (AList.update (strip (lower keyword)) (strip response) kb))) \<and>
      snd (snd (add_learned_knowledge s fs w keyword response)) =
        snd (save_json_robust fs w (knowledge_file s)
               (Object (AList.update (strip (lower keyword)) (strip response) kb))) \<and>
      learned_knowledge (fst (snd (add_learned_knowledge s fs w keyword response))) =
        Object (AList.update (strip (lower keyword)) (strip response) kb) \<and>
      knowledge_lookup (learned_knowledge (fst (snd (add_learned_knowledge s fs w keyword response))))
        (strip (lower keyword)) = Some (strip response))"
  by (cases w) (auto simp add: add_learned_knowledge_def save_json_robust_def knowledge_lookup_def
        Let_def update_conv' split: prod.splits)

theorem add_learned_knowledge_validation_witness:
  "add_learned_knowledge (example_bot (Object [(''help'', ''stored'')]) (Array [])) Map.empty Written
       [] ''ok'' =
     (Inr False, example_bot (Object [(''help'', ''stored'')]) (Array []), Map.empty) \<and>
   '' Track Bus 42 '' \<noteq> [] \<and> ''On time. '' \<noteq> [] \<and>
   learned_knowledge (example_bot (Object [(''help'', ''stored'')]) (Array [])) =
     Object [(''help'', ''stored'')] \<and>
   fst (add_learned_knowledge (example_bot (Object [(''help'', ''stored'')]) (Array [])) Map.empty
          Written '' Track Bus 42 '' ''On time. '') = Inr True \<and>
   learned_knowledge (fst (snd (add_learned_knowledge
          (example_bot (Object [(''help'', ''stored'')]) (Array [])) Map.empty
          Written '' Track Bus 42 '' ''On time. ''))) =
     Object [(''help'', ''stored''), (''track bus 42'', ''On time.'')]"
proof -
  have h: "learned_knowledge (example_bot (Object [(''help'', ''stored'')]) (Array [])) =
     Object [(''help'', ''stored'')]"
    by (simp add: example_bot_def)
  show ?thesis
    using h
      add_learned_knowledge_validation [where keyword="[]" and response="''ok''" and w=Written
        and fs=Map.empty and s="example_bot (Object [(''help'', ''stored'')]) (Array [])"]
      add_learned_knowledge_validation [where keyword="'' Track Bus 42 ''" and response="''On time. ''"
        and w=Written and fs=Map.empty and kb="[(''help'', ''stored'')]"
        and s="example_bot (Object [(''help'', ''stored'')]) (Array [])"]
    by (simp add: save_json_robust_def string_eval)
qed

subsection \<open>Candidate selection\<close>

lemma counter_get_inc:
  "counter_get (counter_inc k c) k' = (if k' = k then counter_get c k + 1 else counter_get c k')"
  by (simp add: counter_get_def counter_inc_def update_conv')

lemma distinct_counter_inc: "distinct (map fst c) \<Longrightarrow> distinct (map fst (counter_inc k c))"
  by (simp add: counter_inc_def distinct_update)

lemma most_common_1_None: "most_common_1 c = None \<longleftrightarrow> c = []"
  by (induction c) (auto split: option.splits)

lemma most_common_1_Some:
  "most_common_1 c = Some p \<Longrightarrow> p \<in> set c \<and> (\<forall>q \<in> set c. snd q \<le> snd p)"
proof (induction c arbitrary: p)
  case Nil
  then show ?case by simp
next
  case (Cons a c)
  show ?case
  proof (cases "most_common_1 c")
    case None
    then have "c = []" by (simp add: most_common_1_None)
    with Cons.prems show ?thesis by simp
  next
    case (Some q)
    from Cons.IH[OF Some] have q: "q \<in> set c" "\<forall>r \<in> set c. snd r \<le> snd q" by simp_all
    show ?thesis
    proof (cases "snd a < snd q")
      case True
      with Some Cons.prems have "p = q" by simp
      with q True show ?thesis by auto
    next
      case False
      with Some Cons.prems have "p = a" by simp
      with q False show ?thesis by fastforce
    qed
  qed
qed

lemma most_common_1_top:
  assumes "distinct (map fst c)" "most_common_1 c = Some (k, n)"
  shows "counter_get c k = n \<and> (\<forall>k'. counter_get c k' \<le> n)"
proof -
  from most_common_1_Some[OF assms(2)] have m: "(k, n) \<in> set c" "\<forall>q \<in> set c. snd q \<le> n"
    by simp_all
  from assms(1) m(1) have "map_of c k = Some n" by simp
  then have 1: "counter_get c k = n" by (simp add: counter_get_def)
  have 2: "counter_get c k' \<le> n" for k'
  proof (cases "map_of c k'")
    case None
    then show ?thesis by (simp add: counter_get_def)
  next
    case (Some m)
    then have "(k', m) \<in> set c" by (rule map_of_SomeD)
    with m(2) have "m \<le> n" by fastforce
    with Some show ?thesis by (simp add: counter_get_def)
  qed
  from 1 2 show ?thesis by blast
qed

lemma recurrences_Nil: "recurrences X inp [] = 0"
  by (simp add: recurrences_def)

lemma recurrences_Cons:
  "recurrences X inp (entry # logs) =
     (if error_type entry = X \<and> strip (lower (user_input entry)) = inp \<and> inp \<noteq> [] then 1 else 0)
     + recurrences X inp logs"
  by (simp add: recurrences_def)

lemma tally_log_by_type:
  assumes "map_of (inputs_by_error_type t) X = Some c0"
  shows "map_of (inputs_by_error_type (tally_log t entry)) X =
     Some (if error_type entry = X \<and> strip (lower (user_input entry)) \<noteq> []
           then counter_inc (strip (lower (user_input entry))) c0 else c0)"
  using assms
  by (auto simp add: tally_log_def Let_def update_conv' split: option.splits)

lemma foldl_tally_log_by_type:
  "map_of (inputs_by_error_type t) X = Some c0 \<Longrightarrow> distinct (map fst c0) \<Longrightarrow>
   \<exists>c. map_of (inputs_by_error_type (foldl tally_log t logs)) X = Some c \<and> distinct (map fst c) \<and>
       (\<forall>inp. counter_get c inp = counter_get c0 inp + recurrences X inp logs)"
proof (induction logs arbitrary: t c0)
  case Nil
  then show ?case by (simp add: recurrences_Nil)
next
  case (Cons entry logs)
  let ?c1 = "if error_type entry = X \<and> strip (lower (user_input entry)) \<noteq> []
           then counter_inc (strip (lower (user_input entry))) c0 else c0"
  have 1: "map_of (inputs_by_error_type (tally_log t entry)) X = Some ?c1"
    by (rule tally_log_by_type[OF Cons.prems(1)])
  have 2: "distinct (map fst ?c1)"
    using Cons.prems(2) by (simp add: distinct_counter_inc)
  from Cons.IH[OF 1 2] obtain c where
    c: "map_of (inputs_by_error_type (foldl tally_log (tally_log t entry) logs)) X = Some c"
       "distinct (map fst c)"
       "\<forall>inp. counter_get c inp = counter_get ?c1 inp + recurrences X inp logs" by blast
  have "counter_get c inp = counter_get c0 inp + recurrences X inp (entry # logs)" for inp
    using c(3) by (auto simp add: recurrences_Cons counter_get_inc)
  with c(1,2) show ?case by auto
qed

lemma initial_by_type:
  "X \<in> set candidate_types_priority \<Longrightarrow> map_of (inputs_by_error_type initial_tallies) X = Some []"
  by (auto simp add: candidate_types_priority_def initial_tallies_def)

text \<open>The counter of a candidate category after the loop, and its most common entry.\<close>

lemma tallied_top:
  assumes "X \<in> set candidate_types_priority"
  shows "\<exists>c. map_of (inputs_by_error_type (foldl tally_log initial_tallies logs)) X = Some c \<and>
     ((most_common_1 c = None \<and> (\<forall>inp. recurrences X inp logs = 0)) \<or>
      (\<exists>k n. most_common_1 c = Some (k, n) \<and> recurrences X k logs = n \<and>
             (\<forall>inp. recurrences X inp logs \<le> n)))"
proof -
  from foldl_tally_log_by_type[OF initial_by_type[OF assms], of logs] obtain c where
    c: "map_of (inputs_by_error_type (foldl tally_log initial_tallies logs)) X = Some c"
       "distinct (map fst c)"
       "\<forall>inp. counter_get c inp = recurrences X inp logs"
    by (auto simp add: counter_get_def)
  show ?thesis
  proof (cases "most_common_1 c")
    case None
    then have "c = []" by (simp add: most_common_1_None)
    with c(3) have "\<forall>inp. recurrences X inp logs = 0" by (simp add: counter_get_def)
    with None c(1) show ?thesis by blast
  next
    case (Some p)
    obtain k n where p: "p = (k, n)" by (cases p)
    from most_common_1_top[OF c(2) Some[unfolded p]] c(3)
    have "recurrences X k logs = n \<and> (\<forall>inp. recurrences X inp logs \<le> n)" by simp
    with Some p c(1) show ?thesis by blast
  qed
qed

lemma select_candidate_unfold:
  "select_candidate out t =
     consider_type (inputs_by_error_type t)
       (consider_type (inputs_by_error_type t)
          \<lparr>analysis_output = out, highest_freq = 1, learning_candidate = None\<rparr> ''Refusal'')
       ''Knowledge Gap''"
  by (simp add: select_candidate_def candidate_types_priority_def)

lemma select_candidate_choice:
  fixes logs out
  defines "st \<equiv> select_candidate out (foldl tally_log initial_tallies logs)"
  shows "case learning_candidate st of
      None \<Rightarrow> \<forall>X \<in> set candidate_types_priority. \<forall>inp. recurrences X inp logs \<le> 1
    | Some (X, inp) \<Rightarrow>
        X \<in> set candidate_types_priority \<and> 1 < recurrences X inp logs \<and>
        highest_freq st = recurrences X inp logs \<and>
        (\<forall>X' \<in> set candidate_types_priority. \<forall>inp'. recurrences X' inp' logs \<le> recurrences X inp logs) \<and>
        (X = ''Knowledge Gap'' \<longrightarrow> (\<forall>inp'. recurrences ''Refusal'' inp' logs < recurrences X inp logs))"
proof -
  have R: "''Refusal'' \<in> set candidate_types_priority" and K: "''Knowledge Gap'' \<in> set candidate_types_priority"
    by (simp_all add: candidate_types_priority_def)
  from tallied_top[OF R, of logs] obtain cR where
    cR: "map_of (inputs_by_error_type (foldl tally_log initial_tallies logs)) ''Refusal'' = Some cR"
     "(most_common_1 cR = None \<and> (\<forall>inp. recurrences ''Refusal'' inp logs = 0)) \<or>
      (\<exists>k n. most_common_1 cR = Some (k, n) \<and> recurrences ''Refusal'' k logs = n \<and>
             (\<forall>inp. recurrences ''Refusal'' inp logs \<le> n))" by blast
  from tallied_top[OF K, of logs] obtain cK where
    cK: "map_of (inputs_by_error_type (foldl tally_log initial_tallies logs)) ''Knowledge Gap'' = Some cK"
     "(most_common_1 cK = None \<and> (\<forall>inp. recurrences ''Knowledge Gap'' inp logs = 0)) \<or>
      (\<exists>k n. most_common_1 cK = Some (k, n) \<and> recurrences ''Knowledge Gap'' k logs = n \<and>
             (\<forall>inp. recurrences ''Knowledge Gap'' inp logs \<le> n))" by blast
  from cR(2) cK(2) show ?thesis
    unfolding st_def select_candidate_unfold
    apply (auto simp add: consider_type_def cR(1) cK(1) Let_def candidate_types_priority_def
             not_less split: option.splits)
    apply (blast intro: order_trans le_less_trans less_imp_le)+
    done
qed

lemma startswith_contains: "startswith s p \<Longrightarrow> contains s p"
  by (cases s) (auto simp add: startswith_def)

lemma contains_here: "contains (p @ ys) p"
  by (rule startswith_contains) (simp add: startswith_def)

lemma contains_append: "contains (xs @ p @ ys) p"
  by (induction xs) (simp_all add: contains_here)

lemma join_mem: "l \<in> set ls \<Longrightarrow> \<exists>a b. join sep ls = a @ l @ b"
proof (induction sep ls rule: join.induct)
  case (1 sep)
  then show ?case by simp
next
  case (2 sep x)
  then have "join sep [x] = [] @ l @ []" by simp
  then show ?case by blast
next
  case (3 sep x y ys)
  show ?case
  proof (cases "l = x")
    case True
    then have "join sep (x # y # ys) = [] @ l @ (sep @ join sep (y # ys))" by simp
    then show ?thesis by blast
  next
    case False
    with 3 obtain a b where "join sep (y # ys) = a @ l @ b" by auto
    then have "join sep (x # y # ys) = (x @ sep @ a) @ l @ b" by simp
    then show ?thesis by blast
  qed
qed

lemma contains_join: "l \<in> set ls \<Longrightarrow> contains (join sep ls) l"
  using join_mem[of l ls sep] contains_append by auto

lemma consider_type_output:
  "set (analysis_output st) \<subseteq> set (analysis_output (consider_type by_type st X))"
  by (auto simp add: consider_type_def Let_def split: option.splits)

lemma consider_type_line:
  "map_of by_type X = Some c \<Longrightarrow> most_common_1 c = Some (k, n) \<Longrightarrow>
   most_frequent_line X k n \<in> set (analysis_output (consider_type by_type st X))"
  by (simp add: consider_type_def Let_def)

lemma recurrences_count:
  "inp \<noteq> [] \<Longrightarrow> recurrences X inp logs = count (mset (map log_key logs)) (X, inp)"
  by (induction logs) (auto simp add: recurrences_def log_key_def)

lemma recurrences_empty: "recurrences X [] logs = 0"
  by (simp add: recurrences_def)

lemma analyze_errors_nonempty:
  "error_logs s = Array logs \<Longrightarrow> logs \<noteq> [] \<Longrightarrow>
   analyze_errors s =
     (let t = foldl tally_log initial_tallies logs;
          st = select_candidate ([''--- Analyzing Error Logs ---'', ''Error Type Summary:'']
                  @ summary_lines (error_counts t)) t
      in (join newline (analysis_output st @ feedback_lines (inputs_with_feedback t)
                               @ [''--- Analysis Complete ---'']),
          learning_candidate st))"
  by (simp add: analyze_errors_def Let_def)

lemma analyze_errors_general:
  assumes "error_logs s = Array logs"
  shows "case snd (analyze_errors s) of
      None \<Rightarrow> \<forall>X \<in> set candidate_types_priority. \<forall>inp. recurrences X inp logs \<le> 1
    | Some (X, inp) \<Rightarrow>
        X \<in> set candidate_types_priority \<and> 1 < recurrences X inp logs \<and>
        (\<forall>X' \<in> set candidate_types_priority. \<forall>inp'. recurrences X' inp' logs \<le> recurrences X inp logs) \<and>
        (X = ''Knowledge Gap'' \<longrightarrow> (\<forall>inp'. recurrences ''Refusal'' inp' logs < recurrences X inp logs))"
proof (cases "logs = []")
  case True
  with assms show ?thesis by (simp add: analyze_errors_def recurrences_Nil)
next
  case False
  let ?t = "foldl tally_log initial_tallies logs"
  let ?out = "[''--- Analyzing Error Logs ---'', ''Error Type Summary:''] @ summary_lines (error_counts ?t)"
  have "snd (analyze_errors s) = learning_candidate (select_candidate ?out ?t)"
    by (simp add: analyze_errors_nonempty[OF assms False] Let_def)
  with select_candidate_choice[where out="?out" and logs=logs] show ?thesis
    by (auto split: option.splits)
qed

lemma scenario_counts:
  assumes "mset (map log_key logs) = scenario_keys"
  shows "recurrences ''Refusal'' ''track bus 42'' logs = 3"
    and "1 < recurrences X inp logs \<Longrightarrow> X = ''Refusal'' \<and> inp = ''track bus 42''"
    and "3 \<le> recurrences ''Refusal'' inp logs \<Longrightarrow> inp = ''track bus 42''"
    and "logs \<noteq> []"
proof -
  note cnt = recurrences_count[where logs=logs, unfolded assms]
  show "recurrences ''Refusal'' ''track bus 42'' logs = 3"
    by (simp add: cnt scenario_keys_def)
  show "X = ''Refusal'' \<and> inp = ''track bus 42''" if "1 < recurrences X inp logs"
  proof -
    from that have "inp \<noteq> []" by (auto simp add: recurrences_empty)
    with that have "1 < count scenario_keys (X, inp)" by (simp add: cnt)
    then show ?thesis by (auto simp add: scenario_keys_def split: if_splits)
  qed
  show "inp = ''track bus 42''" if "3 \<le> recurrences ''Refusal'' inp logs"
  proof -
    from that have "inp \<noteq> []" by (auto simp add: recurrences_empty)
    with that have "3 \<le> count scenario_keys (''Refusal'', inp)" by (simp add: cnt)
    then show ?thesis by (auto simp add: scenario_keys_def split: if_splits)
  qed
  show "logs \<noteq> []" using assms by (cases logs) (simp_all add: scenario_keys_def)
qed

lemma scenario_report:
  assumes "error_logs s = Array logs" "mset (map log_key logs) = scenario_keys"
  shows "contains (fst (analyze_errors s)) (most_frequent_line ''Refusal'' ''track bus 42'' 3)"
proof -
  note sc = scenario_counts[OF assms(2)]
  let ?t = "foldl tally_log initial_tallies logs"
  let ?out = "[''--- Analyzing Error Logs ---'', ''Error Type Summary:''] @ summary_lines (error_counts ?t)"
  let ?st0 = "\<lparr>analysis_output = ?out, highest_freq = 1, learning_candidate = None\<rparr>"
  let ?line = "most_frequent_line ''Refusal'' ''track bus 42'' 3"
  have R: "''Refusal'' \<in> set candidate_types_priority"
    by (simp add: candidate_types_priority_def)
  from tallied_top[OF R, of logs] obtain cR where
    cR: "map_of (inputs_by_error_type ?t) ''Refusal'' = Some cR"
     "(most_common_1 cR = None \<and> (\<forall>inp. recurrences ''Refusal'' inp logs = 0)) \<or>
      (\<exists>k n. most_common_1 cR = Some (k, n) \<and> recurrences ''Refusal'' k logs = n \<and>
             (\<forall>inp. recurrences ''Refusal'' inp logs \<le> n))" by blast
  from cR(2) sc(1) obtain k n where
    kn: "most_common_1 cR = Some (k, n)" "recurrences ''Refusal'' k logs = n"
      "\<forall>inp. recurrences ''Refusal'' inp logs \<le> n" by auto
  from kn(3) sc(1) have "3 \<le> n" by metis
  with kn(2) sc(3) have k: "k = ''track bus 42''" by blast
  with kn(2) sc(1) have n: "n = 3" by simp
  have "?line \<in> set (analysis_output (consider_type (inputs_by_error_type ?t) ?st0 ''Refusal''))"
    using consider_type_line[OF cR(1) kn(1)] k n by simp
  then have "?line \<in> set (analysis_output (select_candidate ?out ?t))"
    unfolding select_candidate_unfold using consider_type_output by blast
  then have "?line \<in> set (analysis_output (select_candidate ?out ?t)
        @ feedback_lines (inputs_with_feedback ?t) @ [''--- Analysis Complete ---''])"
    by simp
  then have "contains (join newline (analysis_output (select_candidate ?out ?t)
        @ feedback_lines (inputs_with_feedback ?t) @ [''--- Analysis Complete ---''])) ?line"
    by (rule contains_join)
  then show ?thesis
    by (simp add: analyze_errors_nonempty[OF assms(1) sc(4)] Let_def)
qed

text \<open>
  C1. On a log that is a list, the candidate of \<open>analyze_errors\<close> is determined by the
  tallies of normalized inputs within the categories of \<open>candidate_types_priority\<close>
  alone: there is no candidate exactly when no such tally exceeds 1; a candidate
  \<open>(X, inp)\<close> has a category of that list and a tally above 1 that no tally of these
  categories exceeds, and a candidate of the second category, \<open>Knowledge Gap\<close>, has a tally
  strictly above every tally of the first, \<open>Refusal\<close>. For any log made of three refusals
  with normalized input \<open>track bus 42\<close>, one refusal with \<open>college news\<close> and one API error
  with \<open>track bus 42\<close>, in whatever order, the candidate is \<open>(Refusal, track bus 42)\<close>, its
  tally is 3 and the report has the line that gives this input with 3 times.
\<close>

theorem analyze_errors_candidate:
  assumes "error_logs s = Array logs"
  shows "(case snd (analyze_errors s) of
      None \<Rightarrow> \<forall>X \<in> set candidate_types_priority. \<forall>inp. recurrences X inp logs \<le> 1
    | Some (X, inp) \<Rightarrow>
        X \<in> set candidate_types_priority \<and> 1 < recurrences X inp logs \<and>
        (\<forall>X' \<in> set candidate_types_priority. \<forall>inp'. recurrences X' inp' logs \<le> recurrences X inp logs) \<and>
        (X = ''Knowledge Gap'' \<longrightarrow> (\<forall>inp'. recurrences ''Refusal'' inp' logs < recurrences X inp logs))) \<and>
    (mset (map log_key logs) = scenario_keys \<longrightarrow>
       snd (analyze_errors s) = Some (''Refusal'', ''track bus 42'') \<and>
       recurrences ''Refusal'' ''track bus 42'' logs = 3 \<and>
       contains (fst (analyze_errors s)) (most_frequent_line ''Refusal'' ''track bus 42'' 3))"
proof (intro conjI impI)
  show "case snd (analyze_errors s) of
      None \<Rightarrow> \<forall>X \<in> set candidate_types_priority. \<forall>inp. recurrences X inp logs \<le> 1
    | Some (X, inp) \<Rightarrow>
        X \<in> set candidate_types_priority \<and> 1 < recurrences X inp logs \<and>
        (\<forall>X' \<in> set candidate_types_priority. \<forall>inp'. recurrences X' inp' logs \<le> recurrences X inp logs) \<and>
        (X = ''Knowledge Gap'' \<longrightarrow> (\<forall>inp'. recurrences ''Refusal'' inp' logs < recurrences X inp logs))"
    by (rule analyze_errors_general[OF assms])
next
  assume m: "mset (map log_key logs) = scenario_keys"
  note sc = scenario_counts[OF m]
  show "recurrences ''Refusal'' ''track bus 42'' logs = 3" by (rule sc(1))
  show "contains (fst (analyze_errors s)) (most_frequent_line ''Refusal'' ''track bus 42'' 3)"
    by (rule scenario_report[OF assms m])
  show "snd (analyze_errors s) = Some (''Refusal'', ''track bus 42'')"
  proof (cases "snd (analyze_errors s)")
    case None
    with analyze_errors_general[OF assms]
    have "recurrences ''Refusal'' ''track bus 42'' logs \<le> 1"
      by (simp add: candidate_types_priority_def)
    with sc(1) show ?thesis by simp
  next
    case (Some p)
    obtain X inp where p: "p = (X, inp)" by (cases p)
    with Some analyze_errors_general[OF assms] have "1 < recurrences X inp logs" by simp
    from sc(2)[OF this] Some p show ?thesis by simp
  qed
qed

lemma most_frequent_line_scenario:
  "most_frequent_line ''Refusal'' ''track bus 42'' 3 =
     newline @ ''Most frequent input for '' @ apostrophe @ ''Refusal'' @ apostrophe @ '': ''
       @ apostrophe @ ''track bus 42'' @ apostrophe @ '' (3 times)''"
  by (simp add: most_frequent_line_def str_nat.simps digit_char_def)

theorem analyze_errors_candidate_witness:
  "error_logs (example_bot (Object DEFAULT_KNOWLEDGE) (Array scenario_log)) = Array scenario_log \<and>
   mset (map log_key scenario_log) = scenario_keys \<and>
   snd (analyze_errors (example_bot (Object DEFAULT_KNOWLEDGE) (Array scenario_log))) =
     Some (''Refusal'', ''track bus 42'') \<and>
   recurrences ''Refusal'' ''track bus 42'' scenario_log = 3"
proof -
  have h: "error_logs (example_bot (Object DEFAULT_KNOWLEDGE) (Array scenario_log)) = Array scenario_log"
    by (simp add: example_bot_def)
  have m: "mset (map log_key scenario_log) = scenario_keys"
    by (simp add: scenario_log_def scenario_keys_def log_key_def example_entry_def string_eval)
  show ?thesis
    using h m analyze_errors_candidate [OF h] by simp
qed

text \<open>The whole report for the scenario log in the order of \<open>scenario_log\<close>.\<close>

lemma analyze_errors_scenario_report:
  "fst (analyze_errors (example_bot (Object DEFAULT_KNOWLEDGE) (Array scenario_log))) =
     join newline
       [''--- Analyzing Error Logs ---'',
        ''Error Type Summary:'',
        ''- Refusal: 4 occurrence(s)'',
        ''- API Error: 1 occurrence(s)'',
        newline @ ''Most frequent input for '' @ apostrophe @ ''Refusal'' @ apostrophe @ '': ''
          @ apostrophe @ ''track bus 42'' @ apostrophe @ '' (3 times)'',
        ''--- Analysis Complete ---'']"
  by code_simp

end
